theory Spec2Isabelle
  imports Main "HOL-Library.Word" "HOL-Library.List_Lexorder" "HOL-Library.Char_ord"
begin

unbundle bit_operations_syntax

section \<open>Go values\<close>

text \<open>
  A Go \<^verbatim>\<open>string\<close> and a \<^verbatim>\<open>[]byte\<close> are sequences of bytes; \<^typ>\<open>char\<close> is a byte.
  The order on strings is the byte-wise lexicographic one, as Go's \<^verbatim>\<open><\<close> on strings.
  An \<^verbatim>\<open>error\<close> is represented by its message.
\<close>

type_synonym bytes = string
type_synonym int64 = "64 word"
type_synonym float64 = "64 word" \<comment> \<open>the bit pattern; such fields are only copied\<close>
type_synonym go_int = "64 word"

datatype error = errors_New string

section \<open>Package request: the envelope and the typed messages and events\<close>

text \<open>
  Modelled from the spec: package \<^verbatim>\<open>request\<close> (the struct declarations and the
  \<^verbatim>\<open>MSG_TYPE_*\<close> and \<^verbatim>\<open>EVENT_TYPE_*\<close> constants) is not among the sources at hand.
  The field names are the ones \<^verbatim>\<open>ServeHTTP\<close> reads and writes; \<^verbatim>\<open>msgReq.MsgType\<close> is
  the field of the embedded \<^verbatim>\<open>CommonHead\<close>. The constants are parameters (see
  \<open>env\<close> below).
\<close>

record CommonHead =
  ToUserName :: string
  FromUserName :: string
  CreateTime :: int64
  MsgType :: string

record Request =
  CommonHead :: CommonHead
  MsgId :: int64
  Content :: string
  MediaId :: string
  PicURL :: string
  Format :: string
  Recognition :: string
  ThumbMediaId :: string
  LocationX :: float64
  LocationY :: float64
  Scale :: go_int
  Label :: string
  Title :: string
  Description :: string
  URL :: string
  Event :: string
  EventKey :: string
  Ticket :: string
  Latitude :: float64
  Longitude :: float64
  Precision :: float64
  MsgID :: int64
  Status :: string
  TotalCount :: go_int
  FilterCount :: go_int
  SentCount :: go_int
  ErrorCount :: go_int
  OrderId :: string
  OrderStatus :: go_int
  ProductId :: string
  SkuInfo :: string

record Text =
  CommonHead :: CommonHead
  MsgId :: int64
  Content :: string

record MenuClickEvent =
  CommonHead :: CommonHead
  Event :: string
  EventKey :: string

record MenuViewEvent =
  CommonHead :: CommonHead
  Event :: string
  EventKey :: string

record LocationEvent =
  CommonHead :: CommonHead
  Event :: string
  Latitude :: float64
  Longitude :: float64
  Precision :: float64

record MerchantOrderEvent =
  CommonHead :: CommonHead
  Event :: string
  OrderId :: string
  OrderStatus :: go_int
  ProductId :: string
  SkuInfo :: string

record SubscribeEvent =
  CommonHead :: CommonHead
  Event :: string

record SubscribeByScanEvent =
  CommonHead :: CommonHead
  Event :: string
  EventKey :: string
  Ticket :: string

record UnsubscribeEvent =
  CommonHead :: CommonHead
  Event :: string

record ScanEvent =
  CommonHead :: CommonHead
  Event :: string
  EventKey :: string
  Ticket :: string

record MassSendJobFinishEvent =
  CommonHead :: CommonHead
  Event :: string
  MsgId :: int64
  Status :: string
  TotalCount :: go_int
  FilterCount :: go_int
  SentCount :: go_int
  ErrorCount :: go_int

record Link =
  CommonHead :: CommonHead
  MsgId :: int64
  Title :: string
  Description :: string
  URL :: string

record Voice =
  CommonHead :: CommonHead
  MsgId :: int64
  MediaId :: string
  Format :: string
  Recognition :: string

record Location =
  CommonHead :: CommonHead
  MsgId :: int64
  LocationX :: float64
  LocationY :: float64
  Scale :: go_int
  Label :: string

record Image =
  CommonHead :: CommonHead
  MsgId :: int64
  MediaId :: string
  PicURL :: string

record Video =
  CommonHead :: CommonHead
  MsgId :: int64
  MediaId :: string
  ThumbMediaId :: string

definition zero_Request :: Request where
  "zero_Request =
     \<lparr>Request.CommonHead = \<lparr>ToUserName = [], FromUserName = [], CreateTime = 0, MsgType = []\<rparr>,
      Request.MsgId = 0, Request.Content = [], Request.MediaId = [], Request.PicURL = [],
      Request.Format = [], Request.Recognition = [], Request.ThumbMediaId = [],
      Request.LocationX = 0, Request.LocationY = 0, Request.Scale = 0, Request.Label = [],
      Request.Title = [], Request.Description = [], Request.URL = [], Request.Event = [],
      Request.EventKey = [], Request.Ticket = [], Request.Latitude = 0, Request.Longitude = 0,
      Request.Precision = 0, Request.MsgID = 0, Request.Status = [], Request.TotalCount = 0,
      Request.FilterCount = 0, Request.SentCount = 0, Request.ErrorCount = 0,
      Request.OrderId = [], Request.OrderStatus = 0, Request.ProductId = [],
      Request.SkuInfo = []\<rparr>"

section \<open>What the handler imports\<close>

text \<open>
  \<^verbatim>\<open>url.Values\<close> is a \<^verbatim>\<open>map[string][]string\<close>; \<^verbatim>\<open>Get\<close> returns the first value of a
  key, and the empty string when the key has none.
\<close>

type_synonym Values = "string \<rightharpoonup> string list"

definition Get :: "Values \<Rightarrow> string \<Rightarrow> string" where
  "Get v key = (case v key of None \<Rightarrow> [] | Some [] \<Rightarrow> [] | Some (x # _) \<Rightarrow> x)"

text \<open>
  The functions of the standard library that parse are parameters of the model:
  \<^verbatim>\<open>url.ParseQuery\<close> returns an error or the values; \<^verbatim>\<open>xml.Unmarshal\<close> takes the data and
  the target as it is and returns the error, if any, and the target as it has become.
  The constants of package \<^verbatim>\<open>request\<close> come with them.
\<close>

record env =
  url_ParseQuery :: "string \<Rightarrow> error + Values"
  xml_Unmarshal :: "bytes \<Rightarrow> Request \<Rightarrow> error option \<times> Request"
  MSG_TYPE_TEXT :: string
  MSG_TYPE_EVENT :: string
  MSG_TYPE_LINK :: string
  MSG_TYPE_VOICE :: string
  MSG_TYPE_LOCATION :: string
  MSG_TYPE_IMAGE :: string
  MSG_TYPE_VIDEO :: string
  EVENT_TYPE_CLICK :: string
  EVENT_TYPE_VIEW :: string
  EVENT_TYPE_LOCATION :: string
  EVENT_TYPE_MERCHANTORDER :: string
  EVENT_TYPE_SUBSCRIBE :: string
  EVENT_TYPE_UNSUBSCRIBE :: string
  EVENT_TYPE_SCAN :: string
  EVENT_TYPE_MASSSENDJOBFINISH :: string

definition msg_types :: "env \<Rightarrow> string list" where
  "msg_types E = [MSG_TYPE_TEXT E, MSG_TYPE_EVENT E, MSG_TYPE_LINK E, MSG_TYPE_VOICE E,
                  MSG_TYPE_LOCATION E, MSG_TYPE_IMAGE E, MSG_TYPE_VIDEO E]"

definition event_types :: "env \<Rightarrow> string list" where
  "event_types E = [EVENT_TYPE_CLICK E, EVENT_TYPE_VIEW E, EVENT_TYPE_LOCATION E,
                    EVENT_TYPE_MERCHANTORDER E, EVENT_TYPE_SUBSCRIBE E, EVENT_TYPE_UNSUBSCRIBE E,
                    EVENT_TYPE_SCAN E, EVENT_TYPE_MASSSENDJOBFINISH E]"

text \<open>
  The cases of one \<^verbatim>\<open>switch\<close> are different constants.
\<close>

definition distinct_consts :: "env \<Rightarrow> bool" where
  "distinct_consts E \<longleftrightarrow> distinct (msg_types E) \<and> distinct (event_types E)"

record url_URL =
  RawQuery :: string

text \<open>
  Of an \<^verbatim>\<open>http.Request\<close> the handler reads the method, the URL (which may be
  \<^verbatim>\<open>nil\<close>) and the body. The body is a reader: it delivers bytes and then ends, with
  \<^verbatim>\<open>io.EOF\<close> (\<open>None\<close>) or with an error.
\<close>

record http_Request =
  Method :: string
  URL :: "url_URL option"
  Body :: "bytes \<times> error option"

section \<open>SHA-1 and the hexadecimal encoding\<close>

text \<open>
  \<^verbatim>\<open>sha1.Sum\<close> as FIPS 180 defines it, on 32-bit words written as natural numbers
  below \<open>2 ^ 32\<close> with the wrap-around written out. The message schedule is kept as a
  window of sixteen words.
\<close>

definition m32 :: "nat \<Rightarrow> nat" where
  "m32 x = x mod 2 ^ 32"

definition rotl :: "nat \<Rightarrow> nat \<Rightarrow> nat" where
  "rotl n x = m32 (x * 2 ^ n) + x div 2 ^ (32 - n)"

definition be32 :: "bytes \<Rightarrow> nat" where
  "be32 bs = foldl (\<lambda>acc c. acc * 256 + of_char c) 0 bs"

fun be_words :: "bytes \<Rightarrow> nat list" where
  "be_words (a # b # c # d # bs) = be32 [a, b, c, d] # be_words bs"
| "be_words bs = []"

definition be_bytes4 :: "nat \<Rightarrow> bytes" where
  "be_bytes4 n = [char_of (n div 2 ^ 24), char_of (n div 2 ^ 16), char_of (n div 2 ^ 8), char_of n]"

definition be_bytes8 :: "nat \<Rightarrow> bytes" where
  "be_bytes8 n = be_bytes4 (n div 2 ^ 32) @ be_bytes4 n"

definition sha1_pad :: "bytes \<Rightarrow> bytes" where
  "sha1_pad m = m @ [char_of (128 :: nat)]
                  @ replicate ((119 - length m mod 64) mod 64) (char_of (0 :: nat))
                  @ be_bytes8 (8 * length m)"

datatype sha1_stage = Ch | Parity1 | Maj | Parity2

fun sha1_f :: "sha1_stage \<Rightarrow> nat \<Rightarrow> nat \<Rightarrow> nat \<Rightarrow> nat" where
  "sha1_f Ch b c d = (b AND c) OR ((2 ^ 32 - 1 - b) AND d)"
| "sha1_f Parity1 b c d = b XOR c XOR d"
| "sha1_f Maj b c d = (b AND c) OR (b AND d) OR (c AND d)"
| "sha1_f Parity2 b c d = b XOR c XOR d"

fun sha1_k :: "sha1_stage \<Rightarrow> nat" where
  "sha1_k Ch = 0x5A827999"
| "sha1_k Parity1 = 0x6ED9EBA1"
| "sha1_k Maj = 0x8F1BBCDC"
| "sha1_k Parity2 = 0xCA62C1D6"

definition sha1_stages :: "sha1_stage list" where
  "sha1_stages = replicate 20 Ch @ replicate 20 Parity1 @ replicate 20 Maj @ replicate 20 Parity2"

type_synonym sha1_state = "nat \<times> nat \<times> nat \<times> nat \<times> nat"

fun sha1_rounds :: "sha1_stage list \<Rightarrow> nat list \<Rightarrow> sha1_state \<Rightarrow> sha1_state" where
  "sha1_rounds [] ws s = s"
| "sha1_rounds (g # gs) ws (a, b, c, d, e) =
     sha1_rounds gs
       (tl ws @ [rotl 1 (ws ! 13 XOR ws ! 8 XOR ws ! 2 XOR ws ! 0)])
       (m32 (rotl 5 a + sha1_f g b c d + e + sha1_k g + ws ! 0), a, rotl 30 b, c, d)"

definition sha1_block :: "sha1_state \<Rightarrow> bytes \<Rightarrow> sha1_state" where
  "sha1_block h blk =
     (case h of (h0, h1, h2, h3, h4) \<Rightarrow>
        (case sha1_rounds sha1_stages (be_words blk) h of (a, b, c, d, e) \<Rightarrow>
           (m32 (h0 + a), m32 (h1 + b), m32 (h2 + c), m32 (h3 + d), m32 (h4 + e))))"

fun sha1_blocks :: "sha1_state \<Rightarrow> bytes \<Rightarrow> sha1_state" where
  "sha1_blocks h bs =
     (if bs = [] then h else sha1_blocks (sha1_block h (take 64 bs)) (drop 64 bs))"

declare sha1_blocks.simps [simp del]

definition sha1_init :: sha1_state where
  "sha1_init = (0x67452301, 0xEFCDAB89, 0x98BADCFE, 0x10325476, 0xC3D2E1F0)"

definition sha1_Sum :: "bytes \<Rightarrow> bytes" where
  "sha1_Sum m =
     (case sha1_blocks sha1_init (sha1_pad m) of (a, b, c, d, e) \<Rightarrow>
        be_bytes4 a @ be_bytes4 b @ be_bytes4 c @ be_bytes4 d @ be_bytes4 e)"

definition hextable :: string where
  "hextable = ''0123456789abcdef''"

definition hex_EncodeToString :: "bytes \<Rightarrow> string" where
  "hex_EncodeToString bs =
     concat (map (\<lambda>c. [hextable ! (of_char c div 16), hextable ! (of_char c mod 16)]) bs)"

section \<open>checkSignature\<close>

text \<open>
  Modelled from the spec: \<^verbatim>\<open>checkSignature\<close> is called by \<^verbatim>\<open>ServeHTTP\<close> and is not among
  the sources at hand. The spec: sort the three strings \<^verbatim>\<open>token\<close>, \<^verbatim>\<open>timestamp\<close>,
  \<^verbatim>\<open>nonce\<close> lexicographically, concatenate them with no separator, compute the SHA-1
  digest, render it as lowercase hex and compare it byte for byte with \<^verbatim>\<open>signature\<close>.
  The last argument is the scratch buffer, which has no part in the result.
\<close>

definition checkSignature :: "string \<Rightarrow> string \<Rightarrow> string \<Rightarrow> string \<Rightarrow> bytes \<Rightarrow> bool" where
  "checkSignature signature timestamp nonce token buf \<longleftrightarrow>
     hex_EncodeToString (sha1_Sum (concat (sort [token, timestamp, nonce]))) = signature"

section \<open>Memory, the pool and the trace\<close>

text \<open>
  Byte buffers live in a store, one per address, so that two slices over the same
  buffer can be told from a copy. \<open>next_addr\<close> is the first address not yet allocated.
  The trace records, in program order, what \<^verbatim>\<open>ServeHTTP\<close> does to the outside: taking
  a unit from the pool and putting it back (a unit is named by the address of its
  \<^verbatim>\<open>msgBuf\<close>), calling \<^verbatim>\<open>checkSignature\<close> (with the result), calling a function of the
  handler setting, and writing to the \<^verbatim>\<open>http.ResponseWriter\<close>. The request and the
  writer are passed on to every callback as they are and are left out.
\<close>

type_synonym addr = nat

record bufferUnit =
  signatureBuf :: bytes
  msgBuf :: addr
  msgRequest :: Request

datatype call =
    InvalidRequestHandler error
  | UnknownRequestHandler addr
  | TextRequestHandler Text
  | MenuClickEventHandler MenuClickEvent
  | MenuViewEventHandler MenuViewEvent
  | LocationEventHandler LocationEvent
  | MerchantOrderEventHandler MerchantOrderEvent
  | SubscribeEventHandler SubscribeEvent
  | SubscribeByScanEventHandler SubscribeByScanEvent
  | UnsubscribeEventHandler UnsubscribeEvent
  | ScanEventHandler ScanEvent
  | MassSendJobFinishEventHandler MassSendJobFinishEvent
  | LinkRequestHandler Link
  | VoiceRequestHandler Voice
  | LocationRequestHandler Location
  | ImageRequestHandler Image
  | VideoRequestHandler Video

datatype event =
    Acquire addr
  | Release addr
  | CheckSignature bool
  | Invoke call
  | WriteString string

record state =
  bufs :: "addr \<Rightarrow> bytes"
  next_addr :: addr
  bufferUnitPool :: "bufferUnit list"
  trace :: "event list"

record HandlerSetting =
  Token :: string

record Handler =
  setting :: HandlerSetting

definition emit :: "event \<Rightarrow> state \<Rightarrow> state" where
  "emit e s = s\<lparr>trace := trace s @ [e]\<rparr>"

definition invoke :: "call \<Rightarrow> state \<Rightarrow> state" where
  "invoke c s = emit (Invoke c) s"

text \<open>
  Modelled from the spec: \<^verbatim>\<open>newBufferUnit\<close>, \<^verbatim>\<open>getBufferUnitFromPool\<close> and
  \<^verbatim>\<open>putBufferUnitToPool\<close> are not among the sources at hand. The spec: acquiring
  returns an idle unit if there is one and constructs a new one otherwise; releasing
  resets the body buffer and the decode target and returns the unit to the idle set.
\<close>

definition newBufferUnit :: "state \<Rightarrow> bufferUnit \<times> state" where
  "newBufferUnit s =
     (\<lparr>signatureBuf = [], msgBuf = next_addr s, msgRequest = zero_Request\<rparr>,
      s\<lparr>bufs := (bufs s)(next_addr s := []), next_addr := Suc (next_addr s)\<rparr>)"

definition getBufferUnitFromPool :: "state \<Rightarrow> bufferUnit \<times> state" where
  "getBufferUnitFromPool s =
     (case (case bufferUnitPool s of
              [] \<Rightarrow> newBufferUnit s
            | u # us \<Rightarrow> (u, s\<lparr>bufferUnitPool := us\<rparr>)) of
        (u, s1) \<Rightarrow> (u, emit (Acquire (msgBuf u)) s1))"

definition putBufferUnitToPool :: "bufferUnit \<Rightarrow> state \<Rightarrow> state" where
  "putBufferUnitToPool u s =
     emit (Release (msgBuf u))
       (s\<lparr>bufs := (bufs s)(msgBuf u := []),
          bufferUnitPool := u\<lparr>msgRequest := zero_Request\<rparr> # bufferUnitPool s\<rparr>)"

text \<open>
  \<^verbatim>\<open>io.Copy\<close> into a \<^verbatim>\<open>bytes.Buffer\<close> appends what the reader delivers and returns the
  reader's error, if it is not \<^verbatim>\<open>io.EOF\<close>. \<^verbatim>\<open>make([]byte, n)\<close> allocates \<open>n\<close> zero bytes
  at a new address; \<^verbatim>\<open>copy\<close> overwrites the front of the destination with as many
  bytes of the source as fit.
\<close>

definition io_Copy :: "addr \<Rightarrow> bytes \<times> error option \<Rightarrow> state \<Rightarrow> error option \<times> state" where
  "io_Copy dst src s = (snd src, s\<lparr>bufs := (bufs s)(dst := bufs s dst @ fst src)\<rparr>)"

definition make_bytes :: "nat \<Rightarrow> state \<Rightarrow> addr \<times> state" where
  "make_bytes n s =
     (next_addr s,
      s\<lparr>bufs := (bufs s)(next_addr s := replicate n (char_of (0 :: nat))),
        next_addr := Suc (next_addr s)\<rparr>)"

definition copy_bytes :: "addr \<Rightarrow> addr \<Rightarrow> state \<Rightarrow> state" where
  "copy_bytes dst src s =
     (let n = min (length (bufs s dst)) (length (bufs s src))
      in s\<lparr>bufs := (bufs s)(dst := take n (bufs s src) @ drop n (bufs s dst))\<rparr>)"

section \<open>ServeHTTP\<close>

text \<open>
  The two \<^verbatim>\<open>default\<close> branches (lines 191 to 195 and 247 to 251): a copy of
  \<^verbatim>\<open>msgReqBody\<close>, which is a slice over the unit's \<^verbatim>\<open>msgBuf\<close>, goes to
  \<^verbatim>\<open>UnknownRequestHandler\<close>.
\<close>

definition unknown_request :: "addr \<Rightarrow> state \<Rightarrow> state" where
  "unknown_request msgReqBody s =
     (case make_bytes (length (bufs s msgReqBody)) s of
        (msgReqBodyCopy, s1) \<Rightarrow>
          invoke (UnknownRequestHandler msgReqBodyCopy)
            (copy_bytes msgReqBodyCopy msgReqBody s1))"

text \<open>The event router, lines 106 to 196. The first case that matches is taken.\<close>

definition route_event :: "env \<Rightarrow> addr \<Rightarrow> Request \<Rightarrow> state \<Rightarrow> state" where
  "route_event E msgReqBody msgReq s =
     (if Request.Event msgReq = EVENT_TYPE_CLICK E then
        invoke (MenuClickEventHandler
          \<lparr>MenuClickEvent.CommonHead = Request.CommonHead msgReq,
           MenuClickEvent.Event = Request.Event msgReq,
           MenuClickEvent.EventKey = Request.EventKey msgReq\<rparr>) s
      else if Request.Event msgReq = EVENT_TYPE_VIEW E then
        invoke (MenuViewEventHandler
          \<lparr>MenuViewEvent.CommonHead = Request.CommonHead msgReq,
           MenuViewEvent.Event = Request.Event msgReq,
           MenuViewEvent.EventKey = Request.EventKey msgReq\<rparr>) s
      else if Request.Event msgReq = EVENT_TYPE_LOCATION E then
        invoke (LocationEventHandler
          \<lparr>LocationEvent.CommonHead = Request.CommonHead msgReq,
           LocationEvent.Event = Request.Event msgReq,
           LocationEvent.Latitude = Request.Latitude msgReq,
           LocationEvent.Longitude = Request.Longitude msgReq,
           LocationEvent.Precision = Request.Precision msgReq\<rparr>) s
      else if Request.Event msgReq = EVENT_TYPE_MERCHANTORDER E then
        invoke (MerchantOrderEventHandler
          \<lparr>MerchantOrderEvent.CommonHead = Request.CommonHead msgReq,
           MerchantOrderEvent.Event = Request.Event msgReq,
           MerchantOrderEvent.OrderId = Request.OrderId msgReq,
           MerchantOrderEvent.OrderStatus = Request.OrderStatus msgReq,
           MerchantOrderEvent.ProductId = Request.ProductId msgReq,
           MerchantOrderEvent.SkuInfo = Request.SkuInfo msgReq\<rparr>) s
      else if Request.Event msgReq = EVENT_TYPE_SUBSCRIBE E then
        (if Request.Ticket msgReq = [] then
           invoke (SubscribeEventHandler
             \<lparr>SubscribeEvent.CommonHead = Request.CommonHead msgReq,
              SubscribeEvent.Event = Request.Event msgReq\<rparr>) s
         else
           invoke (SubscribeByScanEventHandler
             \<lparr>SubscribeByScanEvent.CommonHead = Request.CommonHead msgReq,
              SubscribeByScanEvent.Event = Request.Event msgReq,
              SubscribeByScanEvent.EventKey = Request.EventKey msgReq,
              SubscribeByScanEvent.Ticket = Request.Ticket msgReq\<rparr>) s)
      else if Request.Event msgReq = EVENT_TYPE_UNSUBSCRIBE E then
        invoke (UnsubscribeEventHandler
          \<lparr>UnsubscribeEvent.CommonHead = Request.CommonHead msgReq,
           UnsubscribeEvent.Event = Request.Event msgReq\<rparr>) s
      else if Request.Event msgReq = EVENT_TYPE_SCAN E then
        invoke (ScanEventHandler
          \<lparr>ScanEvent.CommonHead = Request.CommonHead msgReq,
           ScanEvent.Event = Request.Event msgReq,
           ScanEvent.EventKey = Request.EventKey msgReq,
           ScanEvent.Ticket = Request.Ticket msgReq\<rparr>) s
      else if Request.Event msgReq = EVENT_TYPE_MASSSENDJOBFINISH E then
        invoke (MassSendJobFinishEventHandler
          \<lparr>MassSendJobFinishEvent.CommonHead = Request.CommonHead msgReq,
           MassSendJobFinishEvent.Event = Request.Event msgReq,
           MassSendJobFinishEvent.MsgId = Request.MsgID msgReq,
           MassSendJobFinishEvent.Status = Request.Status msgReq,
           MassSendJobFinishEvent.TotalCount = Request.TotalCount msgReq,
           MassSendJobFinishEvent.FilterCount = Request.FilterCount msgReq,
           MassSendJobFinishEvent.SentCount = Request.SentCount msgReq,
           MassSendJobFinishEvent.ErrorCount = Request.ErrorCount msgReq\<rparr>) s
      else unknown_request msgReqBody s)"

text \<open>The request router, lines 95 to 252.\<close>

definition route :: "env \<Rightarrow> addr \<Rightarrow> Request \<Rightarrow> state \<Rightarrow> state" where
  "route E msgReqBody msgReq s =
     (if MsgType (Request.CommonHead msgReq) = MSG_TYPE_TEXT E then
        invoke (TextRequestHandler
          \<lparr>Text.CommonHead = Request.CommonHead msgReq,
           Text.MsgId = Request.MsgId msgReq,
           Text.Content = Request.Content msgReq\<rparr>) s
      else if MsgType (Request.CommonHead msgReq) = MSG_TYPE_EVENT E then
        route_event E msgReqBody msgReq s
      else if MsgType (Request.CommonHead msgReq) = MSG_TYPE_LINK E then
        invoke (LinkRequestHandler
          \<lparr>Link.CommonHead = Request.CommonHead msgReq,
           Link.MsgId = Request.MsgId msgReq,
           Link.Title = Request.Title msgReq,
           Link.Description = Request.Description msgReq,
           Link.URL = Request.URL msgReq\<rparr>) s
      else if MsgType (Request.CommonHead msgReq) = MSG_TYPE_VOICE E then
        invoke (VoiceRequestHandler
          \<lparr>Voice.CommonHead = Request.CommonHead msgReq,
           Voice.MsgId = Request.MsgId msgReq,
           Voice.MediaId = Request.MediaId msgReq,
           Voice.Format = Request.Format msgReq,
           Voice.Recognition = Request.Recognition msgReq\<rparr>) s
      else if MsgType (Request.CommonHead msgReq) = MSG_TYPE_LOCATION E then
        invoke (LocationRequestHandler
          \<lparr>Location.CommonHead = Request.CommonHead msgReq,
           Location.MsgId = Request.MsgId msgReq,
           Location.LocationX = Request.LocationX msgReq,
           Location.LocationY = Request.LocationY msgReq,
           Location.Scale = Request.Scale msgReq,
           Location.Label = Request.Label msgReq\<rparr>) s
      else if MsgType (Request.CommonHead msgReq) = MSG_TYPE_IMAGE E then
        invoke (ImageRequestHandler
          \<lparr>Image.CommonHead = Request.CommonHead msgReq,
           Image.MsgId = Request.MsgId msgReq,
           Image.MediaId = Request.MediaId msgReq,
           Image.PicURL = Request.PicURL msgReq\<rparr>) s
      else if MsgType (Request.CommonHead msgReq) = MSG_TYPE_VIDEO E then
        invoke (VideoRequestHandler
          \<lparr>Video.CommonHead = Request.CommonHead msgReq,
           Video.MsgId = Request.MsgId msgReq,
           Video.MediaId = Request.MediaId msgReq,
           Video.ThumbMediaId = Request.ThumbMediaId msgReq\<rparr>) s
      else unknown_request msgReqBody s)"

text \<open>
  The \<^verbatim>\<open>POST\<close> case from line 77 on, which runs with the unit taken from the pool.
  The unit comes back with its decode target as \<^verbatim>\<open>xml.Unmarshal\<close> left it.
\<close>

definition serve_POST_with ::
  "env \<Rightarrow> Handler \<Rightarrow> http_Request \<Rightarrow> string \<Rightarrow> string \<Rightarrow> string \<Rightarrow> bufferUnit \<Rightarrow> state
     \<Rightarrow> bufferUnit \<times> state" where
  "serve_POST_with E handler r signature timestamp nonce bufferUnit s =
     (let ok = checkSignature signature timestamp nonce (Token (setting handler))
                 (signatureBuf bufferUnit);
          s1 = emit (CheckSignature ok) s
      in if \<not> ok then
           (bufferUnit,
            invoke (InvalidRequestHandler (errors_New ''check signature failed'')) s1)
         else
           (case io_Copy (msgBuf bufferUnit) (Body r) s1 of
              (Some err, s2) \<Rightarrow> (bufferUnit, invoke (InvalidRequestHandler err) s2)
            | (None, s2) \<Rightarrow>
                (case xml_Unmarshal E (bufs s2 (msgBuf bufferUnit)) (msgRequest bufferUnit) of
                   (Some err, msgReq) \<Rightarrow>
                     (bufferUnit\<lparr>msgRequest := msgReq\<rparr>, invoke (InvalidRequestHandler err) s2)
                 | (None, msgReq) \<Rightarrow>
                     (bufferUnit\<lparr>msgRequest := msgReq\<rparr>,
                      route E (msgBuf bufferUnit) msgReq s2))))"

text \<open>
  The \<^verbatim>\<open>POST\<close> case, lines 48 to 252. The deferred \<^verbatim>\<open>putBufferUnitToPool\<close> runs when
  the part after it returns.
\<close>

definition serve_POST :: "env \<Rightarrow> Handler \<Rightarrow> http_Request \<Rightarrow> state \<Rightarrow> state" where
  "serve_POST E handler r s =
     (case http_Request.URL r of
        None \<Rightarrow> invoke (InvalidRequestHandler (errors_New ''r.URL == nil'')) s
      | Some u \<Rightarrow>
          (case url_ParseQuery E (RawQuery u) of
             Inl err \<Rightarrow> invoke (InvalidRequestHandler err) s
           | Inr urlValues \<Rightarrow>
               if Get urlValues ''signature'' = [] then
                 invoke (InvalidRequestHandler (errors_New ''signature is empty'')) s
               else if Get urlValues ''timestamp'' = [] then
                 invoke (InvalidRequestHandler (errors_New ''timestamp is empty'')) s
               else if Get urlValues ''nonce'' = [] then
                 invoke (InvalidRequestHandler (errors_New ''nonce is empty'')) s
               else
                 (case getBufferUnitFromPool s of
                    (bufferUnit, s1) \<Rightarrow>
                      (case serve_POST_with E handler r (Get urlValues ''signature'')
                              (Get urlValues ''timestamp'') (Get urlValues ''nonce'')
                              bufferUnit s1 of
                         (bufferUnit', s2) \<Rightarrow> putBufferUnitToPool bufferUnit' s2))))"

text \<open>The \<^verbatim>\<open>GET\<close> case from line 288 on, with the unit taken from the pool.\<close>

definition serve_GET_with ::
  "Handler \<Rightarrow> string \<Rightarrow> string \<Rightarrow> string \<Rightarrow> string \<Rightarrow> bufferUnit \<Rightarrow> state \<Rightarrow> state" where
  "serve_GET_with handler signature timestamp nonce echostr bufferUnit s =
     (let ok = checkSignature signature timestamp nonce (Token (setting handler))
                 (signatureBuf bufferUnit);
          s1 = emit (CheckSignature ok) s
      in if \<not> ok then
           invoke (InvalidRequestHandler (errors_New ''check signature failed'')) s1
         else emit (WriteString echostr) s1)"

text \<open>The \<^verbatim>\<open>GET\<close> case, lines 255 to 293.\<close>

definition serve_GET :: "env \<Rightarrow> Handler \<Rightarrow> http_Request \<Rightarrow> state \<Rightarrow> state" where
  "serve_GET E handler r s =
     (case http_Request.URL r of
        None \<Rightarrow> invoke (InvalidRequestHandler (errors_New ''r.URL == nil'')) s
      | Some u \<Rightarrow>
          (case url_ParseQuery E (RawQuery u) of
             Inl err \<Rightarrow> invoke (InvalidRequestHandler err) s
           | Inr urlValues \<Rightarrow>
               if Get urlValues ''signature'' = [] then
                 invoke (InvalidRequestHandler (errors_New ''signature is empty'')) s
               else if Get urlValues ''timestamp'' = [] then
                 invoke (InvalidRequestHandler (errors_New ''timestamp is empty'')) s
               else if Get urlValues ''nonce'' = [] then
                 invoke (InvalidRequestHandler (errors_New ''nonce is empty'')) s
               else if Get urlValues ''echostr'' = [] then
                 invoke (InvalidRequestHandler (errors_New ''echostr is empty'')) s
               else
                 (case getBufferUnitFromPool s of
                    (bufferUnit, s1) \<Rightarrow>
                      putBufferUnitToPool bufferUnit
                        (serve_GET_with handler (Get urlValues ''signature'')
                           (Get urlValues ''timestamp'') (Get urlValues ''nonce'')
                           (Get urlValues ''echostr'') bufferUnit s1))))"

definition ServeHTTP :: "env \<Rightarrow> Handler \<Rightarrow> http_Request \<Rightarrow> state \<Rightarrow> state" where
  "ServeHTTP E handler r s =
     (if Method r = ''POST'' then serve_POST E handler r s
      else if Method r = ''GET'' then serve_GET E handler r s
      else s)"

section \<open>Vocabulary of the properties\<close>

text \<open>The events one call of \<^verbatim>\<open>ServeHTTP\<close> adds to the trace.\<close>

definition events :: "env \<Rightarrow> Handler \<Rightarrow> http_Request \<Rightarrow> state \<Rightarrow> event list" where
  "events E handler r s = drop (length (trace s)) (trace (ServeHTTP E handler r s))"

fun callbacks :: "event list \<Rightarrow> call list" where
  "callbacks [] = []"
| "callbacks (Invoke c # es) = c # callbacks es"
| "callbacks (e # es) = callbacks es"

fun written :: "event list \<Rightarrow> string" where
  "written [] = []"
| "written (WriteString x # es) = x @ written es"
| "written (e # es) = written es"

fun signature_checks :: "event list \<Rightarrow> nat" where
  "signature_checks [] = 0"
| "signature_checks (CheckSignature ok # es) = Suc (signature_checks es)"
| "signature_checks (e # es) = signature_checks es"

text \<open>
  The idle units of a pool point to allocated buffers, and they are as
  \<^verbatim>\<open>putBufferUnitToPool\<close> leaves them: body buffer empty, decode target zero.
\<close>

definition wf_state :: "state \<Rightarrow> bool" where
  "wf_state s \<longleftrightarrow>
     (\<forall>u \<in> set (bufferUnitPool s).
        msgBuf u < next_addr s \<and> bufs s (msgBuf u) = [] \<and> msgRequest u = zero_Request)"

text \<open>The query parameters each method requires, in the order the handler reads them.\<close>

definition required :: "string \<Rightarrow> string list" where
  "required method =
     (if method = ''GET'' then [''signature'', ''timestamp'', ''nonce'', ''echostr'']
      else [''signature'', ''timestamp'', ''nonce''])"

text \<open>
  A parameter is missing when the request has no URL, when the query does not parse, or
  when the parsed query has no such key. It is present but empty when the first value
  of the key is the empty string.
\<close>

definition missing :: "env \<Rightarrow> http_Request \<Rightarrow> string \<Rightarrow> bool" where
  "missing E r k =
     (case http_Request.URL r of
        None \<Rightarrow> True
      | Some u \<Rightarrow> (case url_ParseQuery E (RawQuery u) of Inl err \<Rightarrow> True | Inr v \<Rightarrow> v k = None))"

definition present :: "env \<Rightarrow> http_Request \<Rightarrow> string \<Rightarrow> bool" where
  "present E r k = (\<not> missing E r k)"

definition present_empty :: "env \<Rightarrow> http_Request \<Rightarrow> string \<Rightarrow> bool" where
  "present_empty E r k =
     (case http_Request.URL r of
        None \<Rightarrow> False
      | Some u \<Rightarrow>
          (case url_ParseQuery E (RawQuery u) of
             Inl err \<Rightarrow> False
           | Inr v \<Rightarrow> (case v k of Some (x # xs) \<Rightarrow> x = [] | _ \<Rightarrow> False)))"

text \<open>The value the handler reads for a parameter of a request whose query parses.\<close>

definition param :: "env \<Rightarrow> http_Request \<Rightarrow> string \<Rightarrow> string" where
  "param E r k =
     (case http_Request.URL r of
        None \<Rightarrow> []
      | Some u \<Rightarrow> (case url_ParseQuery E (RawQuery u) of Inl err \<Rightarrow> [] | Inr v \<Rightarrow> Get v k))"

text \<open>
  The signature of a request verifies when \<^verbatim>\<open>checkSignature\<close> accepts its three
  parameters with the token of the setting.
\<close>

definition verifies :: "env \<Rightarrow> Handler \<Rightarrow> http_Request \<Rightarrow> bool" where
  "verifies E handler r =
     checkSignature (param E r ''signature'') (param E r ''timestamp'') (param E r ''nonce'')
       (Token (setting handler)) []"

text \<open>
  A \<^verbatim>\<open>POST\<close> request passes parameter extraction and signature verification; it
  decodes to an envelope when, besides, its body is read to the end and
  \<^verbatim>\<open>xml.Unmarshal\<close> accepts it.
\<close>

definition post_verified :: "env \<Rightarrow> Handler \<Rightarrow> http_Request \<Rightarrow> bool" where
  "post_verified E handler r \<longleftrightarrow>
     Method r = ''POST'' \<and> list_all (\<lambda>k. param E r k \<noteq> []) (required ''POST'')
     \<and> verifies E handler r"

definition post_decodes :: "env \<Rightarrow> Handler \<Rightarrow> http_Request \<Rightarrow> Request \<Rightarrow> bool" where
  "post_decodes E handler r msgReq \<longleftrightarrow>
     post_verified E handler r \<and> snd (Body r) = None
     \<and> xml_Unmarshal E (fst (Body r)) zero_Request = (None, msgReq)"

text \<open>A \<^verbatim>\<open>GET\<close> request is a handshake that succeeds.\<close>

definition handshake_ok :: "env \<Rightarrow> Handler \<Rightarrow> http_Request \<Rightarrow> bool" where
  "handshake_ok E handler r \<longleftrightarrow>
     Method r = ''GET'' \<and> list_all (\<lambda>k. param E r k \<noteq> []) (required ''GET'')
     \<and> verifies E handler r"

section \<open>A concrete environment\<close>

text \<open>
  For the examples: \<^verbatim>\<open>url.ParseQuery\<close> on queries without escapes (on a query with
  \<^verbatim>\<open>%\<close>, \<^verbatim>\<open>+\<close> or \<^verbatim>\<open>;\<close> this one reports an error), \<^verbatim>\<open>xml.Unmarshal\<close> on three
  bodies (on any other this one reports an error), and the constants with the values
  the platform sends.
\<close>

fun segments :: "string \<Rightarrow> string \<Rightarrow> string list" where
  "segments cur [] = [rev cur]"
| "segments cur (x # xs) =
     (if x = CHR ''&'' then rev cur # segments [] xs else segments (x # cur) xs)"

fun cut :: "char \<Rightarrow> string \<Rightarrow> string \<times> string" where
  "cut c [] = ([], [])"
| "cut c (x # xs) = (if x = c then ([], xs) else (case cut c xs of (a, b) \<Rightarrow> (x # a, b)))"

definition add_value :: "Values \<Rightarrow> string \<times> string \<Rightarrow> Values" where
  "add_value m kv = m(fst kv \<mapsto> (case m (fst kv) of None \<Rightarrow> [] | Some vs \<Rightarrow> vs) @ [snd kv])"

definition sample_ParseQuery :: "string \<Rightarrow> error + Values" where
  "sample_ParseQuery query =
     (if list_ex (\<lambda>c. c = CHR ''%'' \<or> c = CHR ''+'' \<or> c = CHR '';'') query
      then Inl (errors_New ''invalid URL escape'')
      else Inr (foldl add_value Map.empty
                  (map (cut CHR ''='') (filter (\<lambda>seg. seg \<noteq> []) (segments [] query)))))"

definition body_subscribe :: bytes where
  "body_subscribe = ''<xml><MsgType>event</MsgType><Event>subscribe</Event></xml>''"

definition body_subscribe_scan :: bytes where
  "body_subscribe_scan =
     ''<xml><MsgType>event</MsgType><Event>subscribe</Event><EventKey>qrscene_1</EventKey><Ticket>abc</Ticket></xml>''"

definition body_foo :: bytes where
  "body_foo = ''<xml><MsgType>foo</MsgType></xml>''"

definition sample_Unmarshal :: "bytes \<Rightarrow> Request \<Rightarrow> error option \<times> Request" where
  "sample_Unmarshal data v =
     (if data = body_subscribe then
        (None, v\<lparr>Request.CommonHead := (Request.CommonHead v)\<lparr>MsgType := ''event''\<rparr>,
                 Request.Event := ''subscribe''\<rparr>)
      else if data = body_subscribe_scan then
        (None, v\<lparr>Request.CommonHead := (Request.CommonHead v)\<lparr>MsgType := ''event''\<rparr>,
                 Request.Event := ''subscribe'', Request.EventKey := ''qrscene_1'',
                 Request.Ticket := ''abc''\<rparr>)
      else if data = body_foo then
        (None, v\<lparr>Request.CommonHead := (Request.CommonHead v)\<lparr>MsgType := ''foo''\<rparr>\<rparr>)
      else (Some (errors_New ''EOF''), v))"

definition sample_env :: env where
  "sample_env =
     \<lparr>url_ParseQuery = sample_ParseQuery, xml_Unmarshal = sample_Unmarshal,
      MSG_TYPE_TEXT = ''text'', MSG_TYPE_EVENT = ''event'', MSG_TYPE_LINK = ''link'',
      MSG_TYPE_VOICE = ''voice'', MSG_TYPE_LOCATION = ''location'', MSG_TYPE_IMAGE = ''image'',
      MSG_TYPE_VIDEO = ''video'', EVENT_TYPE_CLICK = ''CLICK'', EVENT_TYPE_VIEW = ''VIEW'',
      EVENT_TYPE_LOCATION = ''LOCATION'', EVENT_TYPE_MERCHANTORDER = ''merchant_order'',
      EVENT_TYPE_SUBSCRIBE = ''subscribe'', EVENT_TYPE_UNSUBSCRIBE = ''unsubscribe'',
      EVENT_TYPE_SCAN = ''SCAN'', EVENT_TYPE_MASSSENDJOBFINISH = ''MASSSENDJOBFINISH''\<rparr>"

definition sample_handler :: Handler where
  "sample_handler = \<lparr>setting = \<lparr>Token = ''token''\<rparr>\<rparr>"

definition sample_signature :: string where
  "sample_signature = ''26ba499f4727eb9baac10d8242a9f4e31bc892db''"

definition request :: "string \<Rightarrow> string \<Rightarrow> bytes \<times> error option \<Rightarrow> http_Request" where
  "request method query body = \<lparr>Method = method, URL = Some \<lparr>RawQuery = query\<rparr>, Body = body\<rparr>"

definition sample_query :: string where
  "sample_query = ''signature=26ba499f4727eb9baac10d8242a9f4e31bc892db&timestamp=1414587457&nonce=nonce''"

definition initial_state :: state where
  "initial_state = \<lparr>bufs = (\<lambda>a. []), next_addr = 0, bufferUnitPool = [], trace = []\<rparr>"

definition sample_get_query :: string where
  "sample_get_query = sample_query @ ''&echostr=hello''"

text \<open>
  A handshake query whose \<^verbatim>\<open>nonce\<close> is present with the empty string as its value, and
  whose signature is the one of the token, the timestamp and the empty string.
\<close>

definition empty_nonce_signature :: string where
  "empty_nonce_signature = ''3e16ab9b5e8b4ce6366ae0c8f8e0e45749396ae7''"

definition empty_nonce_query :: string where
  "empty_nonce_query =
     ''signature=3e16ab9b5e8b4ce6366ae0c8f8e0e45749396ae7&timestamp=1414587457&nonce=&echostr=hello''"

section \<open>Routing and the paths of a request\<close>

lemma trace_unknown_request:
  "trace (unknown_request b s) = trace s @ [Invoke (UnknownRequestHandler (next_addr s))]"
  by (simp add: unknown_request_def make_bytes_def copy_bytes_def invoke_def emit_def Let_def)

lemma pool_unknown_request: "bufferUnitPool (unknown_request b s) = bufferUnitPool s"
  by (simp add: unknown_request_def make_bytes_def copy_bytes_def invoke_def emit_def Let_def)

lemma bufs_unknown_request:
  "b \<noteq> next_addr s \<Longrightarrow> bufs (unknown_request b s) = (bufs s)(next_addr s := bufs s b)"
  by (auto simp: unknown_request_def make_bytes_def copy_bytes_def invoke_def emit_def Let_def fun_eq_iff)

lemma next_unknown_request: "next_addr (unknown_request b s) = Suc (next_addr s)"
  by (simp add: unknown_request_def make_bytes_def copy_bytes_def invoke_def emit_def Let_def)

lemma route_event_unknown:
  assumes "Request.Event m \<notin> set (event_types E)"
  shows "route_event E b m s = unknown_request b s"
  using assms by (simp add: route_event_def event_types_def)

lemma route_other_unknown:
  assumes "MsgType (Request.CommonHead m) \<notin> set (msg_types E)"
  shows "route E b m s = unknown_request b s"
  using assms by (simp add: route_def msg_types_def)

lemma text_not_event: "distinct_consts E \<Longrightarrow> MSG_TYPE_EVENT E \<noteq> MSG_TYPE_TEXT E"
  by (auto simp: distinct_consts_def msg_types_def)

lemma route_event_case:
  assumes "distinct_consts E" and "MsgType (Request.CommonHead m) = MSG_TYPE_EVENT E"
  shows "route E b m s = route_event E b m s"
  using assms(2) text_not_event [OF assms(1)] by (simp add: route_def)

lemma route_unknown:
  assumes "distinct_consts E"
    and "MsgType (Request.CommonHead m) \<notin> set (msg_types E)
         \<or> (MsgType (Request.CommonHead m) = MSG_TYPE_EVENT E
             \<and> Request.Event m \<notin> set (event_types E))"
  shows "route E b m s = unknown_request b s"
  using assms(2)
proof
  assume "MsgType (Request.CommonHead m) \<notin> set (msg_types E)"
  then show ?thesis by (rule route_other_unknown)
next
  assume "MsgType (Request.CommonHead m) = MSG_TYPE_EVENT E
          \<and> Request.Event m \<notin> set (event_types E)"
  then show ?thesis
    by (simp add: route_event_case [OF assms(1)] route_event_unknown)
qed

lemma subscribe_not_earlier:
  assumes "distinct_consts E"
  shows "EVENT_TYPE_SUBSCRIBE E \<noteq> EVENT_TYPE_CLICK E" "EVENT_TYPE_SUBSCRIBE E \<noteq> EVENT_TYPE_VIEW E"
    "EVENT_TYPE_SUBSCRIBE E \<noteq> EVENT_TYPE_LOCATION E"
    "EVENT_TYPE_SUBSCRIBE E \<noteq> EVENT_TYPE_MERCHANTORDER E"
  using assms by (auto simp: distinct_consts_def event_types_def)

lemma route_subscribe:
  assumes "distinct_consts E"
    and "MsgType (Request.CommonHead m) = MSG_TYPE_EVENT E"
    and "Request.Event m = EVENT_TYPE_SUBSCRIBE E"
  shows "route E b m s =
     invoke (if Request.Ticket m = []
             then SubscribeEventHandler
                    \<lparr>SubscribeEvent.CommonHead = Request.CommonHead m,
                     SubscribeEvent.Event = Request.Event m\<rparr>
             else SubscribeByScanEventHandler
                    \<lparr>SubscribeByScanEvent.CommonHead = Request.CommonHead m,
                     SubscribeByScanEvent.Event = Request.Event m,
                     SubscribeByScanEvent.EventKey = Request.EventKey m,
                     SubscribeByScanEvent.Ticket = Request.Ticket m\<rparr>) s"
  using assms(3) subscribe_not_earlier [OF assms(1)]
  by (simp add: route_event_case [OF assms(1) assms(2)] route_event_def)

lemma param_nonempty:
  assumes "param E r k \<noteq> []"
  shows "\<exists>u v. http_Request.URL r = Some u \<and> url_ParseQuery E (RawQuery u) = Inr v"
  using assms by (auto simp: param_def split: option.splits sum.splits)

lemma post_verifiedD:
  assumes "post_verified E handler r"
  shows "\<exists>u v. Method r = ''POST'' \<and> http_Request.URL r = Some u
    \<and> url_ParseQuery E (RawQuery u) = Inr v
    \<and> Get v ''signature'' \<noteq> [] \<and> Get v ''timestamp'' \<noteq> [] \<and> Get v ''nonce'' \<noteq> []
    \<and> (\<forall>buf. checkSignature (Get v ''signature'') (Get v ''timestamp'') (Get v ''nonce'')
          (Token (setting handler)) buf)"
proof -
  from assms have "param E r ''signature'' \<noteq> []"
    by (simp add: post_verified_def required_def)
  then obtain u v where uv: "http_Request.URL r = Some u" "url_ParseQuery E (RawQuery u) = Inr v"
    using param_nonempty by blast
  with assms show ?thesis
    by (simp add: post_verified_def required_def param_def verifies_def checkSignature_def)
qed

lemma get_wf:
  assumes "wf_state s" and "getBufferUnitFromPool s = (u, s1)"
  shows "msgRequest u = zero_Request \<and> bufs s1 (msgBuf u) = [] \<and> msgBuf u < next_addr s1
    \<and> next_addr s \<le> next_addr s1 \<and> trace s1 = trace s @ [Acquire (msgBuf u)]
    \<and> (\<forall>u' \<in> set (bufferUnitPool s1). msgBuf u' < next_addr s \<and> msgBuf u' < next_addr s1)"
  using assms
  by (auto simp: wf_state_def getBufferUnitFromPool_def newBufferUnit_def emit_def
      split: list.splits)

lemma serve_POST_verified:
  assumes "post_verified E handler r" and "getBufferUnitFromPool s = (u, s1)"
  shows "ServeHTTP E handler r s =
     (case io_Copy (msgBuf u) (Body r) (emit (CheckSignature True) s1) of
        (Some err, s2) \<Rightarrow> putBufferUnitToPool u (invoke (InvalidRequestHandler err) s2)
      | (None, s2) \<Rightarrow>
         (case xml_Unmarshal E (bufs s2 (msgBuf u)) (msgRequest u) of
            (Some err, m) \<Rightarrow>
               putBufferUnitToPool (u\<lparr>msgRequest := m\<rparr>) (invoke (InvalidRequestHandler err) s2)
          | (None, m) \<Rightarrow>
               putBufferUnitToPool (u\<lparr>msgRequest := m\<rparr>) (route E (msgBuf u) m s2)))"
proof -
  from post_verifiedD [OF assms(1)]
  obtain w v where *: "Method r = ''POST''" "http_Request.URL r = Some w"
    "url_ParseQuery E (RawQuery w) = Inr v"
    "Get v ''signature'' \<noteq> []" "Get v ''timestamp'' \<noteq> []" "Get v ''nonce'' \<noteq> []"
    "\<forall>buf. checkSignature (Get v ''signature'') (Get v ''timestamp'') (Get v ''nonce'')
       (Token (setting handler)) buf"
    by blast
  show ?thesis
    using * assms(2)
    by (simp add: ServeHTTP_def serve_POST_def serve_POST_with_def Let_def
        split: prod.splits option.splits)
qed

lemma serve_POST_verified_wf:
  assumes "wf_state s" and "post_verified E handler r" and "getBufferUnitFromPool s = (u, s1)"
  shows "ServeHTTP E handler r s =
     (let s2 = s1\<lparr>trace := trace s @ [Acquire (msgBuf u), CheckSignature True],
                   bufs := (bufs s1)(msgBuf u := fst (Body r))\<rparr>
      in case snd (Body r) of
           Some err \<Rightarrow> putBufferUnitToPool u (invoke (InvalidRequestHandler err) s2)
         | None \<Rightarrow>
            (case xml_Unmarshal E (fst (Body r)) zero_Request of
               (Some err, m) \<Rightarrow>
                  putBufferUnitToPool (u\<lparr>msgRequest := m\<rparr>) (invoke (InvalidRequestHandler err) s2)
             | (None, m) \<Rightarrow>
                  putBufferUnitToPool (u\<lparr>msgRequest := m\<rparr>) (route E (msgBuf u) m s2)))"
proof -
  from get_wf [OF assms(1) assms(3)]
  have "trace s1 = trace s @ [Acquire (msgBuf u)]" "msgRequest u = zero_Request"
    "bufs s1 (msgBuf u) = []"
    by simp_all
  then show ?thesis
    by (simp add: serve_POST_verified [OF assms(2) assms(3)] io_Copy_def emit_def Let_def
        split: option.splits prod.splits)
qed

text \<open>
  C6: when a \<^verbatim>\<open>POST\<close> request has passed signature verification and reading its body
  fails, or the body is read and \<^verbatim>\<open>xml.Unmarshal\<close> fails, \<^verbatim>\<open>InvalidRequestHandler\<close> is
  called with that error, and it is the only callback of the request.
\<close>

theorem read_or_decode_failure_invalid:
  assumes "wf_state s" and "post_verified E handler r"
    and "snd (Body r) = Some err
         \<or> (snd (Body r) = None \<and> fst (xml_Unmarshal E (fst (Body r)) zero_Request) = Some err)"
  shows "callbacks (events E handler r s) = [InvalidRequestHandler err]"
proof -
  obtain u s1 where g: "getBufferUnitFromPool s = (u, s1)"
    by (cases "getBufferUnitFromPool s")
  show ?thesis
    using assms(3)
    by (auto simp: events_def serve_POST_verified_wf [OF assms(1) assms(2) g] Let_def
        putBufferUnitToPool_def invoke_def emit_def split: prod.splits option.splits)
qed

lemma serve_POST_decodes:
  assumes "wf_state s" and "post_decodes E handler r m" and "getBufferUnitFromPool s = (u, s1)"
  shows "ServeHTTP E handler r s =
     putBufferUnitToPool (u\<lparr>msgRequest := m\<rparr>)
       (route E (msgBuf u) m
          (s1\<lparr>trace := trace s @ [Acquire (msgBuf u), CheckSignature True],
              bufs := (bufs s1)(msgBuf u := fst (Body r))\<rparr>))"
proof -
  from assms(2) have v: "post_verified E handler r" and b: "snd (Body r) = None"
    and x: "xml_Unmarshal E (fst (Body r)) zero_Request = (None, m)"
    by (simp_all add: post_decodes_def)
  show ?thesis
    by (simp add: serve_POST_verified_wf [OF assms(1) v assms(3)] b x)
qed

text \<open>
  C3: for a \<^verbatim>\<open>POST\<close> request that decodes to an envelope whose \<^verbatim>\<open>MsgType\<close> is the event
  type and whose \<^verbatim>\<open>Event\<close> is the subscribe event, the one callback is
  \<^verbatim>\<open>SubscribeEventHandler\<close>, with the common head and the event only, when \<^verbatim>\<open>Ticket\<close> is
  empty, and \<^verbatim>\<open>SubscribeByScanEventHandler\<close>, with \<^verbatim>\<open>EventKey\<close> and \<^verbatim>\<open>Ticket\<close> copied from
  the envelope, otherwise.
\<close>

theorem subscribe_routing:
  assumes "wf_state s" and "distinct_consts E" and "post_decodes E handler r msgReq"
    and "MsgType (Request.CommonHead msgReq) = MSG_TYPE_EVENT E"
    and "Request.Event msgReq = EVENT_TYPE_SUBSCRIBE E"
  shows "callbacks (events E handler r s) =
     [if Request.Ticket msgReq = []
      then SubscribeEventHandler
             \<lparr>SubscribeEvent.CommonHead = Request.CommonHead msgReq,
              SubscribeEvent.Event = Request.Event msgReq\<rparr>
      else SubscribeByScanEventHandler
             \<lparr>SubscribeByScanEvent.CommonHead = Request.CommonHead msgReq,
              SubscribeByScanEvent.Event = Request.Event msgReq,
              SubscribeByScanEvent.EventKey = Request.EventKey msgReq,
              SubscribeByScanEvent.Ticket = Request.Ticket msgReq\<rparr>]"
proof -
  obtain u s1 where g: "getBufferUnitFromPool s = (u, s1)"
    by (cases "getBufferUnitFromPool s")
  show ?thesis
    unfolding events_def serve_POST_decodes [OF assms(1) assms(3) g]
      route_subscribe [OF assms(2) assms(4) assms(5)]
    by (simp add: putBufferUnitToPool_def invoke_def emit_def)
qed

text \<open>
  C2: for a \<^verbatim>\<open>POST\<close> request that decodes to an envelope whose \<^verbatim>\<open>MsgType\<close> is none of
  the seven message types, or is the event type with an \<^verbatim>\<open>Event\<close> that is none of the
  eight event types, the one callback is \<^verbatim>\<open>UnknownRequestHandler\<close>. The slice it gets
  is at an address that was not allocated before the request and is not the body buffer
  of the unit in use nor of any unit of the pool, and it holds the bytes of the body,
  still so when the unit is back in the pool with its body buffer reset.
\<close>

theorem unknown_request_gets_copy:
  assumes "wf_state s" and "distinct_consts E" and "post_decodes E handler r msgReq"
    and "MsgType (Request.CommonHead msgReq) \<notin> set (msg_types E)
         \<or> (MsgType (Request.CommonHead msgReq) = MSG_TYPE_EVENT E
             \<and> Request.Event msgReq \<notin> set (event_types E))"
    and "getBufferUnitFromPool s = (u, s1)"
  shows "events E handler r s =
           [Acquire (msgBuf u), CheckSignature True,
            Invoke (UnknownRequestHandler (next_addr s1)), Release (msgBuf u)]
         \<and> next_addr s \<le> next_addr s1 \<and> next_addr s1 \<noteq> msgBuf u
         \<and> (\<forall>u' \<in> set (bufferUnitPool (ServeHTTP E handler r s)). msgBuf u' \<noteq> next_addr s1)
         \<and> bufs (ServeHTTP E handler r s) (next_addr s1) = fst (Body r)
         \<and> bufs (ServeHTTP E handler r s) (msgBuf u) = []"
proof -
  from get_wf [OF assms(1) assms(5)]
  have lt: "msgBuf u < next_addr s1" and le: "next_addr s \<le> next_addr s1"
    and pool: "\<forall>u' \<in> set (bufferUnitPool s1). msgBuf u' < next_addr s1"
    by simp_all
  let ?s2 = "s1\<lparr>trace := trace s @ [Acquire (msgBuf u), CheckSignature True],
                 bufs := (bufs s1)(msgBuf u := fst (Body r))\<rparr>"
  have ne: "msgBuf u \<noteq> next_addr ?s2" using lt by simp
  have eq: "ServeHTTP E handler r s =
      putBufferUnitToPool (u\<lparr>msgRequest := msgReq\<rparr>) (unknown_request (msgBuf u) ?s2)"
    by (simp add: serve_POST_decodes [OF assms(1) assms(3) assms(5)]
        route_unknown [OF assms(2) assms(4)])
  have "events E handler r s =
           [Acquire (msgBuf u), CheckSignature True,
            Invoke (UnknownRequestHandler (next_addr s1)), Release (msgBuf u)]"
    by (simp add: events_def eq putBufferUnitToPool_def emit_def trace_unknown_request)
  moreover have "\<forall>u' \<in> set (bufferUnitPool (ServeHTTP E handler r s)). msgBuf u' \<noteq> next_addr s1"
    using pool lt by (auto simp: eq putBufferUnitToPool_def emit_def pool_unknown_request)
  moreover have "bufs (ServeHTTP E handler r s) (next_addr s1) = fst (Body r)"
    using lt by (simp add: eq putBufferUnitToPool_def emit_def bufs_unknown_request [OF ne])
  moreover have "bufs (ServeHTTP E handler r s) (msgBuf u) = []"
    by (simp add: eq putBufferUnitToPool_def emit_def)
  ultimately show ?thesis using le lt by simp
qed

section \<open>The shape of a call\<close>

lemma get_trace:
  assumes "getBufferUnitFromPool s = (u, s1)"
  shows "trace s1 = trace s @ [Acquire (msgBuf u)]"
  using assms
  by (auto simp: getBufferUnitFromPool_def newBufferUnit_def emit_def split: list.splits)

lemma trace_route_event: "\<exists>c. trace (route_event E b m s) = trace s @ [Invoke c]"
  by (simp add: route_event_def trace_unknown_request invoke_def emit_def)

lemma pool_route_event: "bufferUnitPool (route_event E b m s) = bufferUnitPool s"
  by (simp add: route_event_def pool_unknown_request invoke_def emit_def)

lemma trace_route: "\<exists>c. trace (route E b m s) = trace s @ [Invoke c]"
  by (simp add: route_def trace_route_event trace_unknown_request invoke_def emit_def)

lemma pool_route: "bufferUnitPool (route E b m s) = bufferUnitPool s"
  by (simp add: route_def pool_route_event pool_unknown_request invoke_def emit_def)

lemma serve_POST_with_shape:
  assumes "serve_POST_with E handler r sg ts n u s = (u', s')"
  shows "msgBuf u' = msgBuf u \<and> bufferUnitPool s' = bufferUnitPool s
         \<and> (\<exists>ok c. trace s' = trace s @ [CheckSignature ok, Invoke c])"
proof (cases "checkSignature sg ts n (Token (setting handler)) (signatureBuf u)")
  case False
  with assms show ?thesis
    by (auto simp: serve_POST_with_def Let_def invoke_def emit_def)
next
  case True
  show ?thesis
  proof (cases "snd (Body r)")
    case (Some err)
    with True assms show ?thesis
      by (auto simp: serve_POST_with_def Let_def io_Copy_def invoke_def emit_def)
  next
    case None
    let ?s2 = "snd (io_Copy (msgBuf u) (Body r) (emit (CheckSignature True) s))"
    obtain eo m where x: "xml_Unmarshal E (bufs ?s2 (msgBuf u)) (msgRequest u) = (eo, m)"
      by (cases "xml_Unmarshal E (bufs ?s2 (msgBuf u)) (msgRequest u)")
    obtain c where c: "trace (route E (msgBuf u) m ?s2) = trace ?s2 @ [Invoke c]"
      using trace_route by blast
    have t2: "trace ?s2 = trace s @ [CheckSignature True]" "bufferUnitPool ?s2 = bufferUnitPool s"
      by (simp_all add: io_Copy_def emit_def)
    from assms True None x have
      "(u', s') = (u\<lparr>msgRequest := m\<rparr>,
          case eo of Some err \<Rightarrow> invoke (InvalidRequestHandler err) ?s2
                   | None \<Rightarrow> route E (msgBuf u) m ?s2)"
      by (auto simp: serve_POST_with_def Let_def io_Copy_def split: option.splits)
    then show ?thesis
      using c t2 by (cases eo) (auto simp: invoke_def emit_def pool_route)
  qed
qed

lemma serve_GET_with_shape:
  "bufferUnitPool (serve_GET_with handler sg ts n e u s) = bufferUnitPool s
   \<and> trace (serve_GET_with handler sg ts n e u s) =
       trace s @ (if checkSignature sg ts n (Token (setting handler)) []
                  then [CheckSignature True, WriteString e]
                  else [CheckSignature False,
                        Invoke (InvalidRequestHandler (errors_New ''check signature failed''))])"
  by (simp add: serve_GET_with_def Let_def invoke_def emit_def checkSignature_def)

text \<open>
  The shape of what one call does: nothing, one call of \<^verbatim>\<open>InvalidRequestHandler\<close>, or a
  unit taken, the signature checked, one callback or one write, and the unit put back.
\<close>

lemma serve_POST_shape:
  "(\<exists>err. serve_POST E handler r s = invoke (InvalidRequestHandler err) s)
   \<or> (\<exists>b ok c. trace (serve_POST E handler r s) =
                   trace s @ [Acquire b, CheckSignature ok, Invoke c, Release b]
                \<and> (\<exists>u \<in> set (bufferUnitPool (serve_POST E handler r s)). msgBuf u = b))"
proof (cases "\<exists>u v. http_Request.URL r = Some u \<and> url_ParseQuery E (RawQuery u) = Inr v
    \<and> Get v ''signature'' \<noteq> [] \<and> Get v ''timestamp'' \<noteq> [] \<and> Get v ''nonce'' \<noteq> []")
  case False
  then have "\<exists>err. serve_POST E handler r s = invoke (InvalidRequestHandler err) s"
    by (auto simp: serve_POST_def split: option.splits sum.splits)
  then show ?thesis ..
next
  case True
  then obtain w v where *: "http_Request.URL r = Some w" "url_ParseQuery E (RawQuery w) = Inr v"
    "Get v ''signature'' \<noteq> []" "Get v ''timestamp'' \<noteq> []" "Get v ''nonce'' \<noteq> []"
    by blast
  obtain u s1 where g: "getBufferUnitFromPool s = (u, s1)"
    by (cases "getBufferUnitFromPool s")
  obtain u' s2 where p: "serve_POST_with E handler r (Get v ''signature'') (Get v ''timestamp'')
      (Get v ''nonce'') u s1 = (u', s2)"
    by (cases "serve_POST_with E handler r (Get v ''signature'') (Get v ''timestamp'')
      (Get v ''nonce'') u s1")
  from serve_POST_with_shape [OF p] obtain ok c where
    sh: "msgBuf u' = msgBuf u" "trace s2 = trace s1 @ [CheckSignature ok, Invoke c]"
    by blast
  have eq: "serve_POST E handler r s = putBufferUnitToPool u' s2"
    using * g p by (simp add: serve_POST_def)
  have "trace (serve_POST E handler r s) =
          trace s @ [Acquire (msgBuf u), CheckSignature ok, Invoke c, Release (msgBuf u)]"
    by (simp add: eq putBufferUnitToPool_def emit_def sh get_trace [OF g])
  moreover have "\<exists>x \<in> set (bufferUnitPool (serve_POST E handler r s)). msgBuf x = msgBuf u"
    by (simp add: eq putBufferUnitToPool_def emit_def sh)
  ultimately show ?thesis by blast
qed

lemma serve_GET_shape:
  "(\<exists>err. serve_GET E handler r s = invoke (InvalidRequestHandler err) s)
   \<or> (\<exists>b ok x. trace (serve_GET E handler r s) = trace s @ [Acquire b, CheckSignature ok, x, Release b]
                \<and> (\<exists>c e. x = Invoke c \<or> x = WriteString e)
                \<and> (\<exists>u \<in> set (bufferUnitPool (serve_GET E handler r s)). msgBuf u = b))"
proof (cases "\<exists>u v. http_Request.URL r = Some u \<and> url_ParseQuery E (RawQuery u) = Inr v
    \<and> Get v ''signature'' \<noteq> [] \<and> Get v ''timestamp'' \<noteq> [] \<and> Get v ''nonce'' \<noteq> []
    \<and> Get v ''echostr'' \<noteq> []")
  case False
  then have "\<exists>err. serve_GET E handler r s = invoke (InvalidRequestHandler err) s"
    by (auto simp: serve_GET_def split: option.splits sum.splits)
  then show ?thesis ..
next
  case True
  then obtain w v where *: "http_Request.URL r = Some w" "url_ParseQuery E (RawQuery w) = Inr v"
    "Get v ''signature'' \<noteq> []" "Get v ''timestamp'' \<noteq> []" "Get v ''nonce'' \<noteq> []"
    "Get v ''echostr'' \<noteq> []"
    by blast
  obtain u s1 where g: "getBufferUnitFromPool s = (u, s1)"
    by (cases "getBufferUnitFromPool s")
  have eq: "serve_GET E handler r s = putBufferUnitToPool u
      (serve_GET_with handler (Get v ''signature'') (Get v ''timestamp'') (Get v ''nonce'')
         (Get v ''echostr'') u s1)"
    using * g by (simp add: serve_GET_def)
  show ?thesis
    by (rule disjI2)
       (auto simp: eq putBufferUnitToPool_def emit_def serve_GET_with_shape get_trace [OF g])
qed

lemma frame_unknown_request:
  "next_addr s \<le> next_addr (unknown_request b s)
   \<and> (a < next_addr s \<longrightarrow> bufs (unknown_request b s) a = bufs s a)"
  by (simp add: unknown_request_def make_bytes_def copy_bytes_def invoke_def emit_def Let_def)

lemma frame_route_event:
  "next_addr s \<le> next_addr (route_event E b m s)
   \<and> (a < next_addr s \<longrightarrow> bufs (route_event E b m s) a = bufs s a)"
  using frame_unknown_request [of s b a]
  by (simp add: route_event_def invoke_def emit_def)

lemma frame_route:
  "next_addr s \<le> next_addr (route E b m s)
   \<and> (a < next_addr s \<longrightarrow> bufs (route E b m s) a = bufs s a)"
  using frame_unknown_request [of s b a] frame_route_event [of s E b m a]
  by (simp add: route_def invoke_def emit_def)

lemma frame_serve_POST_with:
  assumes "serve_POST_with E handler r sg ts n u s = (u', s')"
  shows "next_addr s \<le> next_addr s'
         \<and> (a < next_addr s \<and> a \<noteq> msgBuf u \<longrightarrow> bufs s' a = bufs s a)"
proof (cases "checkSignature sg ts n (Token (setting handler)) (signatureBuf u)")
  case False
  with assms show ?thesis
    by (auto simp: serve_POST_with_def Let_def invoke_def emit_def)
next
  case True
  let ?s2 = "snd (io_Copy (msgBuf u) (Body r) (emit (CheckSignature True) s))"
  have f2: "next_addr ?s2 = next_addr s" "a \<noteq> msgBuf u \<longrightarrow> bufs ?s2 a = bufs s a"
    by (simp_all add: io_Copy_def emit_def)
  obtain eo m where x: "xml_Unmarshal E (bufs ?s2 (msgBuf u)) (msgRequest u) = (eo, m)"
    by (cases "xml_Unmarshal E (bufs ?s2 (msgBuf u)) (msgRequest u)")
  from assms True x have
    "s' = ?s2 \<or> s' = invoke (InvalidRequestHandler (the (snd (Body r)))) ?s2
     \<or> s' = invoke (InvalidRequestHandler (the eo)) ?s2 \<or> s' = route E (msgBuf u) m ?s2"
    by (auto simp: serve_POST_with_def Let_def io_Copy_def split: option.splits)
  then show ?thesis
    using f2 frame_route [of ?s2 E "msgBuf u" m a]
    by (auto simp: invoke_def emit_def)
qed

text \<open>
  The condition on the pool is an invariant: it holds of a state with an empty pool, and
  every call of \<^verbatim>\<open>ServeHTTP\<close> keeps it.
\<close>

lemma wf_state_ServeHTTP:
  assumes "wf_state s"
  shows "wf_state (ServeHTTP E handler r s)"
proof -
  consider (post) "Method r = ''POST''" | (get) "Method r \<noteq> ''POST''" "Method r = ''GET''"
    | (other) "Method r \<noteq> ''POST''" "Method r \<noteq> ''GET''"
    by blast
  then show ?thesis
  proof cases
    case post
    show ?thesis
    proof (cases "\<exists>err. ServeHTTP E handler r s = invoke (InvalidRequestHandler err) s")
      case True
      with assms show ?thesis
        by (auto simp: wf_state_def invoke_def emit_def)
    next
      case False
      with post obtain w v where *: "http_Request.URL r = Some w"
        "url_ParseQuery E (RawQuery w) = Inr v"
        "Get v ''signature'' \<noteq> []" "Get v ''timestamp'' \<noteq> []" "Get v ''nonce'' \<noteq> []"
        by (auto simp: ServeHTTP_def serve_POST_def split: option.splits sum.splits if_splits)
      obtain u s1 where g: "getBufferUnitFromPool s = (u, s1)"
        by (cases "getBufferUnitFromPool s")
      obtain u' s2 where p: "serve_POST_with E handler r (Get v ''signature'')
          (Get v ''timestamp'') (Get v ''nonce'') u s1 = (u', s2)"
        by (cases "serve_POST_with E handler r (Get v ''signature'') (Get v ''timestamp'')
          (Get v ''nonce'') u s1")
      have eq: "ServeHTTP E handler r s = putBufferUnitToPool u' s2"
        using post * g p by (simp add: ServeHTTP_def serve_POST_def)
      from serve_POST_with_shape [OF p]
      have sh: "msgBuf u' = msgBuf u" "bufferUnitPool s2 = bufferUnitPool s1"
        by simp_all
      from get_wf [OF assms g]
      have w1: "msgBuf u < next_addr s1"
        "\<forall>x \<in> set (bufferUnitPool s1). msgBuf x < next_addr s1"
        by simp_all
      have w2: "\<forall>x \<in> set (bufferUnitPool s1). bufs s1 (msgBuf x) = [] \<and> msgRequest x = zero_Request"
        using assms g
        by (auto simp: wf_state_def getBufferUnitFromPool_def newBufferUnit_def emit_def
            split: list.splits)
      have fr: "next_addr s1 \<le> next_addr s2"
        "\<And>a. a < next_addr s1 \<Longrightarrow> a \<noteq> msgBuf u \<Longrightarrow> bufs s2 a = bufs s1 a"
        using frame_serve_POST_with [OF p] by auto
      show ?thesis
        unfolding eq wf_state_def
        using sh w1 w2 fr
        by (auto simp: putBufferUnitToPool_def emit_def)
    qed
  next
    case get
    show ?thesis
    proof (cases "\<exists>err. ServeHTTP E handler r s = invoke (InvalidRequestHandler err) s")
      case True
      with assms show ?thesis
        by (auto simp: wf_state_def invoke_def emit_def)
    next
      case False
      with get obtain w v where *: "http_Request.URL r = Some w"
        "url_ParseQuery E (RawQuery w) = Inr v"
        "Get v ''signature'' \<noteq> []" "Get v ''timestamp'' \<noteq> []" "Get v ''nonce'' \<noteq> []"
        "Get v ''echostr'' \<noteq> []"
        by (auto simp: ServeHTTP_def serve_GET_def split: option.splits sum.splits if_splits)
      obtain u s1 where g: "getBufferUnitFromPool s = (u, s1)"
        by (cases "getBufferUnitFromPool s")
      have eq: "ServeHTTP E handler r s = putBufferUnitToPool u
          (serve_GET_with handler (Get v ''signature'') (Get v ''timestamp'') (Get v ''nonce'')
             (Get v ''echostr'') u s1)"
        using get * g by (simp add: ServeHTTP_def serve_GET_def)
      from get_wf [OF assms g]
      have w1: "msgBuf u < next_addr s1" "msgRequest u = zero_Request"
        "\<forall>x \<in> set (bufferUnitPool s1). msgBuf x < next_addr s1"
        by simp_all
      have w2: "\<forall>x \<in> set (bufferUnitPool s1). bufs s1 (msgBuf x) = [] \<and> msgRequest x = zero_Request"
        using assms g
        by (auto simp: wf_state_def getBufferUnitFromPool_def newBufferUnit_def emit_def
            split: list.splits)
      show ?thesis
        unfolding eq wf_state_def
        using w1 w2
        by (auto simp: putBufferUnitToPool_def emit_def serve_GET_with_def Let_def invoke_def)
    qed
  next
    case other
    with assms show ?thesis
      by (simp add: ServeHTTP_def)
  qed
qed

text \<open>
  What follows from the description of \<^verbatim>\<open>checkSignature\<close> alone: the signature computed
  from the three strings is accepted, whatever the order of the three; no other
  signature is accepted, so that changing the signature makes the check fail; and an
  accepted signature has forty characters.
\<close>

lemma checkSignature_computed:
  "checkSignature (hex_EncodeToString (sha1_Sum (concat (sort [token, timestamp, nonce]))))
     timestamp nonce token buf"
  by (simp add: checkSignature_def)

lemma checkSignature_other_signature:
  assumes "checkSignature signature timestamp nonce token buf" and "signature' \<noteq> signature"
  shows "\<not> checkSignature signature' timestamp nonce token buf"
  using assms by (auto simp: checkSignature_def)


section \<open>Handshake, callbacks, release and empty parameters\<close>

lemma events_invoke:
  assumes "ServeHTTP E handler r s = invoke c s"
  shows "events E handler r s = [Invoke c]"
  by (simp add: events_def assms invoke_def emit_def)

lemma events_append:
  assumes "trace (ServeHTTP E handler r s) = trace s @ evs"
  shows "events E handler r s = evs"
  by (simp add: events_def assms)

lemma serve_GET_complete:
  assumes "Method r = ''GET''" and "list_all (\<lambda>k. param E r k \<noteq> []) (required ''GET'')"
    and "getBufferUnitFromPool s = (u, s1)"
  shows "events E handler r s =
     [Acquire (msgBuf u), CheckSignature (verifies E handler r)]
     @ (if verifies E handler r then [WriteString (param E r ''echostr'')]
        else [Invoke (InvalidRequestHandler (errors_New ''check signature failed''))])
     @ [Release (msgBuf u)]"
proof -
  from assms(2) have "param E r ''signature'' \<noteq> []"
    by (simp add: required_def)
  then obtain w v where uv: "http_Request.URL r = Some w" "url_ParseQuery E (RawQuery w) = Inr v"
    using param_nonempty by blast
  with assms(2) have ne: "Get v ''signature'' \<noteq> []" "Get v ''timestamp'' \<noteq> []"
    "Get v ''nonce'' \<noteq> []" "Get v ''echostr'' \<noteq> []"
    by (simp_all add: required_def param_def)
  have p: "param E r k = Get v k" for k
    by (simp add: param_def uv)
  have "ServeHTTP E handler r s = putBufferUnitToPool u
      (serve_GET_with handler (Get v ''signature'') (Get v ''timestamp'') (Get v ''nonce'')
         (Get v ''echostr'') u s1)"
    using assms(1,3) uv ne by (simp add: ServeHTTP_def serve_GET_def)
  then show ?thesis
    by (intro events_append)
       (simp add: putBufferUnitToPool_def emit_def serve_GET_with_shape get_trace [OF assms(3)]
          verifies_def p)
qed

lemma serve_GET_incomplete:
  assumes "Method r = ''GET''" and "\<not> list_all (\<lambda>k. param E r k \<noteq> []) (required ''GET'')"
  shows "\<exists>err. events E handler r s = [Invoke (InvalidRequestHandler err)]"
proof -
  have "\<exists>err. ServeHTTP E handler r s = invoke (InvalidRequestHandler err) s"
    using assms
    by (auto simp: ServeHTTP_def serve_GET_def required_def param_def
        split: option.splits sum.splits)
  then show ?thesis
    using events_invoke by blast
qed

text \<open>
  C7, as amended: for a \<^verbatim>\<open>GET\<close> request whose four parameters all have a value that is
  not empty, if the signature verifies against the token of the setting, the handler
  writes the value of \<^verbatim>\<open>echostr\<close> and nothing else and calls no callback; if it does not
  verify, the handler calls \<^verbatim>\<open>InvalidRequestHandler\<close> and writes nothing.
\<close>

theorem handshake_echo:
  assumes "Method r = ''GET''" and "list_all (\<lambda>k. param E r k \<noteq> []) (required ''GET'')"
  shows "(verifies E handler r \<longrightarrow>
            written (events E handler r s) = param E r ''echostr''
            \<and> callbacks (events E handler r s) = [])
         \<and> (\<not> verifies E handler r \<longrightarrow>
            written (events E handler r s) = []
            \<and> callbacks (events E handler r s) =
                [InvalidRequestHandler (errors_New ''check signature failed'')])"
proof -
  obtain u s1 where g: "getBufferUnitFromPool s = (u, s1)"
    by (cases "getBufferUnitFromPool s")
  show ?thesis
    by (simp add: serve_GET_complete [OF assms g])
qed

text \<open>
  C8: whenever a call takes a unit from the pool, the last thing the call does is to put
  that unit back, and the unit is in the pool when the call returns. This holds on
  every path, the early returns after a failed signature check, a failed read and a
  failed decode among them.
\<close>

theorem unit_always_released:
  assumes "Acquire b \<in> set (events E handler r s)"
  shows "last (events E handler r s) = Release b
         \<and> (\<exists>u \<in> set (bufferUnitPool (ServeHTTP E handler r s)). msgBuf u = b)"
proof -
  consider (post) "Method r = ''POST''" | (get) "Method r \<noteq> ''POST''" "Method r = ''GET''"
    | (other) "Method r \<noteq> ''POST''" "Method r \<noteq> ''GET''"
    by blast
  then show ?thesis
  proof cases
    case post
    then have eq: "ServeHTTP E handler r s = serve_POST E handler r s"
      by (simp add: ServeHTTP_def)
    from serve_POST_shape [of E handler r s] show ?thesis
    proof
      assume "\<exists>err. serve_POST E handler r s = invoke (InvalidRequestHandler err) s"
      with assms eq show ?thesis
        by (auto simp: events_def invoke_def emit_def)
    next
      assume "\<exists>b ok c. trace (serve_POST E handler r s) =
                   trace s @ [Acquire b, CheckSignature ok, Invoke c, Release b]
                \<and> (\<exists>u \<in> set (bufferUnitPool (serve_POST E handler r s)). msgBuf u = b)"
      with assms eq show ?thesis
        by (auto simp: events_def)
    qed
  next
    case get
    then have eq: "ServeHTTP E handler r s = serve_GET E handler r s"
      by (simp add: ServeHTTP_def)
    from serve_GET_shape [of E handler r s] show ?thesis
    proof
      assume "\<exists>err. serve_GET E handler r s = invoke (InvalidRequestHandler err) s"
      with assms eq show ?thesis
        by (auto simp: events_def invoke_def emit_def)
    next
      assume "\<exists>b ok x. trace (serve_GET E handler r s) =
                  trace s @ [Acquire b, CheckSignature ok, x, Release b]
                \<and> (\<exists>c e. x = Invoke c \<or> x = WriteString e)
                \<and> (\<exists>u \<in> set (bufferUnitPool (serve_GET E handler r s)). msgBuf u = b)"
      with assms eq show ?thesis
        by (auto simp: events_def)
    qed
  next
    case other
    with assms show ?thesis
      by (simp add: events_def ServeHTTP_def)
  qed
qed

text \<open>
  C5, as amended: a call invokes at most one callback. It invokes exactly one for every
  \<^verbatim>\<open>POST\<close> request and for every \<^verbatim>\<open>GET\<close> request that is not a handshake that succeeds;
  it invokes none for a handshake that succeeds, where the handler itself writes the
  answer, and none for a request with another method.
\<close>

theorem callbacks_per_request:
  "length (callbacks (events E handler r s)) =
     (if Method r = ''POST'' \<or> (Method r = ''GET'' \<and> \<not> handshake_ok E handler r) then 1 else 0)"
proof -
  consider (post) "Method r = ''POST''" | (get) "Method r \<noteq> ''POST''" "Method r = ''GET''"
    | (other) "Method r \<noteq> ''POST''" "Method r \<noteq> ''GET''"
    by blast
  then show ?thesis
  proof cases
    case post
    then have eq: "ServeHTTP E handler r s = serve_POST E handler r s"
      by (simp add: ServeHTTP_def)
    have "length (callbacks (events E handler r s)) = 1"
      using serve_POST_shape [of E handler r s]
      by (auto simp: events_def eq invoke_def emit_def)
    with post show ?thesis by simp
  next
    case get
    show ?thesis
    proof (cases "list_all (\<lambda>k. param E r k \<noteq> []) (required ''GET'')")
      case True
      obtain u s1 where g: "getBufferUnitFromPool s = (u, s1)"
        by (cases "getBufferUnitFromPool s")
      from get True show ?thesis
        by (simp add: serve_GET_complete [OF get(2) True g] handshake_ok_def)
    next
      case False
      with get serve_GET_incomplete [OF get(2) False, of handler s] show ?thesis
        by (auto simp: handshake_ok_def)
    qed
  next
    case other
    then show ?thesis
      by (simp add: events_def ServeHTTP_def)
  qed
qed

text \<open>
  C10: a required parameter that is present with the empty string as its first value is
  treated as a missing one. The request goes to \<^verbatim>\<open>InvalidRequestHandler\<close> without a call
  of \<^verbatim>\<open>checkSignature\<close>, and the handler does exactly what it does for a request of the
  same method whose query differs only in not having the parameter.
\<close>

theorem empty_parameter_as_missing:
  assumes "Method r = ''POST'' \<or> Method r = ''GET''"
    and "k \<in> set (required (Method r))"
    and "http_Request.URL r = Some u" and "url_ParseQuery E (RawQuery u) = Inr v"
    and "v k = Some ([] # vs)"
    and "Method r' = Method r"
    and "http_Request.URL r' = Some u'" and "url_ParseQuery E (RawQuery u') = Inr (v(k := None))"
  shows "ServeHTTP E handler r s = ServeHTTP E handler r' s
         \<and> (\<exists>err. ServeHTTP E handler r s = invoke (InvalidRequestHandler err) s)
         \<and> signature_checks (events E handler r s) = 0"
proof -
  have g: "Get (v(k := None)) k' = Get v k'" for k'
    using assms(5) by (simp add: Get_def)
  have e: "Get v k = []"
    using assms(5) by (simp add: Get_def)
  have same: "ServeHTTP E handler r s = ServeHTTP E handler r' s"
    using assms(1,2,3,4,6,7,8) e
    by (auto simp: ServeHTTP_def serve_POST_def serve_GET_def required_def g split: if_splits)
  have inv: "\<exists>err. ServeHTTP E handler r s = invoke (InvalidRequestHandler err) s"
    using assms(1,2,3,4) e
    by (auto simp: ServeHTTP_def serve_POST_def serve_GET_def required_def split: if_splits)
  then have "signature_checks (events E handler r s) = 0"
    by (auto simp: events_def invoke_def emit_def)
  with same inv show ?thesis by blast
qed

text \<open>
  C9: a request whose method is neither \<^verbatim>\<open>GET\<close> nor \<^verbatim>\<open>POST\<close> leaves everything as it
  is: the handler writes no response body and calls no callback, not even
  \<^verbatim>\<open>InvalidRequestHandler\<close>.
\<close>

theorem other_methods_ignored:
  assumes "Method r \<noteq> ''GET''" and "Method r \<noteq> ''POST''"
  shows "ServeHTTP E handler r s = s \<and> written (events E handler r s) = []
         \<and> callbacks (events E handler r s) = []"
  using assms by (simp add: ServeHTTP_def events_def)

theorem other_methods_ignored_witness:
  "Method (request ''PUT'' sample_query ([], None)) \<noteq> ''GET''
   \<and> Method (request ''PUT'' sample_query ([], None)) \<noteq> ''POST''
   \<and> ServeHTTP sample_env sample_handler (request ''PUT'' sample_query ([], None)) initial_state
       = initial_state"
  using other_methods_ignored [of "request ''PUT'' sample_query ([], None)" sample_env sample_handler initial_state]
  by (simp add: request_def)

lemma Get_missing: "v k = None \<Longrightarrow> Get v k = []"
  by (simp add: Get_def)

text \<open>
  C4: a \<^verbatim>\<open>GET\<close> or \<^verbatim>\<open>POST\<close> request that lacks one of the parameters its method
  requires goes to \<^verbatim>\<open>InvalidRequestHandler\<close>, and nothing else happens: in particular
  \<^verbatim>\<open>checkSignature\<close> is not called.
\<close>

theorem missing_parameter_invalid:
  assumes "Method r = ''POST'' \<or> Method r = ''GET''"
    and "k \<in> set (required (Method r))"
    and "missing E r k"
  shows "(\<exists>err. events E handler r s = [Invoke (InvalidRequestHandler err)]
            \<and> ServeHTTP E handler r s = invoke (InvalidRequestHandler err) s)
         \<and> signature_checks (events E handler r s) = 0"
  using assms
  by (auto simp: ServeHTTP_def serve_POST_def serve_GET_def events_def missing_def required_def
      invoke_def emit_def Get_missing split: option.splits sum.splits if_splits)

lemma sample_parse_1:
  "sample_ParseQuery ''timestamp=1414587457&nonce=nonce''
     = Inr [''timestamp'' \<mapsto> [''1414587457''], ''nonce'' \<mapsto> [''nonce'']]"
  by (simp add: sample_ParseQuery_def add_value_def)

theorem missing_parameter_invalid_witness:
  "(Method (request ''POST'' ''timestamp=1414587457&nonce=nonce'' ([], None)) = ''POST''
    \<or> Method (request ''POST'' ''timestamp=1414587457&nonce=nonce'' ([], None)) = ''GET'')
   \<and> ''signature'' \<in> set (required (Method (request ''POST'' ''timestamp=1414587457&nonce=nonce'' ([], None))))
   \<and> missing sample_env (request ''POST'' ''timestamp=1414587457&nonce=nonce'' ([], None)) ''signature''
   \<and> events sample_env sample_handler (request ''POST'' ''timestamp=1414587457&nonce=nonce'' ([], None))
         initial_state = [Invoke (InvalidRequestHandler (errors_New ''signature is empty''))]"
  using missing_parameter_invalid [of "request ''POST'' ''timestamp=1414587457&nonce=nonce'' ([], None)"
      "''signature''" sample_env sample_handler initial_state]
  by (simp add: request_def required_def missing_def sample_env_def sample_parse_1
      events_def ServeHTTP_def serve_POST_def Get_def invoke_def emit_def initial_state_def)

section \<open>Examples\<close>

lemma replicate_numeral_Cons: "replicate (numeral k) x = x # replicate (pred_numeral k) x"
  by (simp add: numeral_eq_Suc)

text \<open>The padded message is a whole number of blocks of sixteen words.\<close>

lemma length_sha1_pad: "length (sha1_pad m) mod 64 = 0"
proof -
  define k where "k = length m mod 64"
  define q where "q = length m div 64"
  have k: "k < 64" by (simp add: k_def)
  have len: "length m = 64 * q + k" by (simp add: k_def q_def)
  have pad: "(119 - k) mod 64 = (if k \<le> 55 then 55 - k else 119 - k)"
  proof (cases "k \<le> 55")
    case True
    then have "119 - k = 64 + (55 - k)" by simp
    then have "(119 - k) mod 64 = (55 - k) mod 64" by (simp only: mod_add_self1)
    with True show ?thesis by simp
  next
    case False
    with k show ?thesis by simp
  qed
  have "length (sha1_pad m) = length m + 9 + (119 - k) mod 64"
    by (simp add: sha1_pad_def be_bytes8_def be_bytes4_def k_def)
  also have "\<dots> = (if k \<le> 55 then 64 * (q + 1) else 64 * (q + 2))"
    using k by (simp add: pad len)
  finally show ?thesis by simp
qed

lemma sha1_one_block:
  assumes "length (sha1_pad m) = 64"
  shows "sha1_blocks sha1_init (sha1_pad m) = sha1_block sha1_init (sha1_pad m)"
proof -
  from assms have ne: "sha1_pad m \<noteq> []" by auto
  have "sha1_blocks sha1_init (sha1_pad m) = sha1_blocks (sha1_block sha1_init (sha1_pad m)) []"
    using assms ne by (subst sha1_blocks.simps) simp
  also have "\<dots> = sha1_block sha1_init (sha1_pad m)"
    by (subst sha1_blocks.simps) simp
  finally show ?thesis .
qed

lemma length_hex_EncodeToString: "length (hex_EncodeToString bs) = 2 * length bs"
  by (induction bs) (simp_all add: hex_EncodeToString_def)

lemma length_sha1_Sum: "length (sha1_Sum m) = 20"
  by (simp add: sha1_Sum_def be_bytes4_def split: prod.splits)

lemma checkSignature_length:
  assumes "checkSignature signature timestamp nonce token buf"
  shows "length signature = 40"
  using assms length_hex_EncodeToString [of "sha1_Sum (concat (sort [token, timestamp, nonce]))"]
  by (simp add: checkSignature_def length_sha1_Sum)


text \<open>The function agrees with the test vector of the standard for the message \<open>abc\<close>.\<close>

lemma abc_words:
  "be_words (sha1_pad ''abc'') = [1633837952, 0, 0, 0, 0, 0, 0, 0, 0, 0, 0, 0, 0, 0, 0, 24]"
  by (simp add: sha1_pad_def be_bytes8_def be_bytes4_def be32_def char_of_def
      replicate_numeral_Cons bit_Suc_0_iff)

lemma abc_rounds:
  "sha1_rounds sha1_stages [1633837952, 0, 0, 0, 0, 0, 0, 0, 0, 0, 0, 0, 0, 0, 0, 24]
     (0x67452301, 0xEFCDAB89, 0x98BADCFE, 0x10325476, 0xC3D2E1F0)
   = (1112808245, 1463342561, 562251891, 1746824694, 3640522413)"
  by (simp add: sha1_stages_def rotl_def m32_def replicate_numeral_Cons)

lemma abc_sha1:
  "hex_EncodeToString (sha1_Sum ''abc'') = ''a9993e364706816aba3e25717850c26c9cd0d89d''"
proof -
  have "length (sha1_pad ''abc'') = 64"
    by (simp add: sha1_pad_def be_bytes8_def be_bytes4_def)
  then have "sha1_blocks sha1_init (sha1_pad ''abc'') = sha1_block sha1_init (sha1_pad ''abc'')"
    by (rule sha1_one_block)
  also have "\<dots> = (2845392438, 1191608682, 3124634993, 2018558572, 2630932637)"
    unfolding sha1_block_def abc_words sha1_init_def
    by (simp add: abc_rounds m32_def)
  finally show ?thesis
    unfolding sha1_Sum_def
    by (simp add: hex_EncodeToString_def hextable_def be_bytes4_def char_of_def bit_Suc_0_iff)
qed


lemma sample_words:
  "be_words (sha1_pad ''1414587457noncetoken'') =
     [825504052, 892876596, 892825199, 1852007796, 1869309294, 2147483648,
      0, 0, 0, 0, 0, 0, 0, 0, 0, 160]"
  by (simp add: sha1_pad_def be_bytes8_def be_bytes4_def be32_def char_of_def
      replicate_numeral_Cons bit_Suc_0_iff)

lemma sample_rounds:
  "sha1_rounds sha1_stages
     [825504052, 892876596, 892825199, 1852007796, 1869309294, 2147483648,
      0, 0, 0, 0, 0, 0, 0, 0, 0, 160]
     (0x67452301, 0xEFCDAB89, 0x98BADCFE, 0x10325476, 0xC3D2E1F0)
   = (3212125854, 1465532434, 302395524, 846700653, 1475719403)"
  by (simp add: sha1_stages_def rotl_def m32_def replicate_numeral_Cons)

lemma sample_sha1:
  "hex_EncodeToString (sha1_Sum ''1414587457noncetoken'') = sample_signature"
proof -
  have "length (sha1_pad ''1414587457noncetoken'') = 64"
    by (simp add: sha1_pad_def be_bytes8_def be_bytes4_def)
  then have "sha1_blocks sha1_init (sha1_pad ''1414587457noncetoken'')
             = sha1_block sha1_init (sha1_pad ''1414587457noncetoken'')"
    by (rule sha1_one_block)
  also have "\<dots> = (649742751, 1193798555, 2864778626, 1118434531, 466129627)"
    unfolding sha1_block_def sample_words sha1_init_def
    by (simp add: sample_rounds m32_def)
  finally show ?thesis
    unfolding sha1_Sum_def
    by (simp add: hex_EncodeToString_def hextable_def be_bytes4_def char_of_def
        sample_signature_def bit_Suc_0_iff)
qed

lemma sample_checkSignature:
  "checkSignature sample_signature ''1414587457'' ''nonce'' ''token'' buf"
  by (simp add: checkSignature_def sample_sha1)


lemma sample_parse:
  "sample_ParseQuery sample_query =
     Inr [''signature'' \<mapsto> [sample_signature], ''timestamp'' \<mapsto> [''1414587457''],
          ''nonce'' \<mapsto> [''nonce'']]"
  by (simp add: sample_ParseQuery_def add_value_def sample_query_def sample_signature_def)

lemma sample_params:
  "param sample_env (request method sample_query body) ''signature'' = sample_signature"
  "param sample_env (request method sample_query body) ''timestamp'' = ''1414587457''"
  "param sample_env (request method sample_query body) ''nonce'' = ''nonce''"
  by (simp_all add: param_def request_def sample_env_def sample_parse Get_def)

lemma sample_post_verified:
  "post_verified sample_env sample_handler (request ''POST'' sample_query body)"
  by (simp add: post_verified_def required_def verifies_def sample_params sample_handler_def
      sample_checkSignature)
     (simp add: request_def sample_signature_def)

lemma wf_initial_state: "wf_state initial_state"
  by (simp add: wf_state_def initial_state_def)

lemma distinct_sample_env: "distinct_consts sample_env"
  by (simp add: distinct_consts_def msg_types_def event_types_def sample_env_def)


theorem read_or_decode_failure_invalid_witness:
  "wf_state initial_state
   \<and> post_verified sample_env sample_handler
        (request ''POST'' sample_query (''<xml>'', Some (errors_New ''unexpected EOF'')))
   \<and> snd (Body (request ''POST'' sample_query (''<xml>'', Some (errors_New ''unexpected EOF''))))
        = Some (errors_New ''unexpected EOF'')
   \<and> callbacks (events sample_env sample_handler
        (request ''POST'' sample_query (''<xml>'', Some (errors_New ''unexpected EOF'')))
        initial_state) = [InvalidRequestHandler (errors_New ''unexpected EOF'')]
   \<and> post_verified sample_env sample_handler (request ''POST'' sample_query (''<xml>'', None))
   \<and> snd (Body (request ''POST'' sample_query (''<xml>'', None))) = None
   \<and> fst (xml_Unmarshal sample_env (fst (Body (request ''POST'' sample_query (''<xml>'', None))))
        zero_Request) = Some (errors_New ''EOF'')
   \<and> callbacks (events sample_env sample_handler
        (request ''POST'' sample_query (''<xml>'', None)) initial_state)
        = [InvalidRequestHandler (errors_New ''EOF'')]"
proof -
  have b1: "snd (Body (request ''POST'' sample_query (''<xml>'', Some (errors_New ''unexpected EOF''))))
        = Some (errors_New ''unexpected EOF'')"
    by (simp add: request_def)
  have b2: "snd (Body (request ''POST'' sample_query (''<xml>'', None))) = None
      \<and> fst (xml_Unmarshal sample_env (fst (Body (request ''POST'' sample_query (''<xml>'', None))))
        zero_Request) = Some (errors_New ''EOF'')"
    by (simp add: request_def sample_env_def sample_Unmarshal_def body_subscribe_def
        body_subscribe_scan_def body_foo_def)
  show ?thesis
    using read_or_decode_failure_invalid [OF wf_initial_state sample_post_verified disjI1, OF b1]
      read_or_decode_failure_invalid [OF wf_initial_state sample_post_verified disjI2, OF b2]
      b1 b2 wf_initial_state sample_post_verified
    by simp
qed

theorem subscribe_routing_witness:
  "wf_state initial_state \<and> distinct_consts sample_env
   \<and> post_decodes sample_env sample_handler (request ''POST'' sample_query (body_subscribe, None))
        (snd (sample_Unmarshal body_subscribe zero_Request))
   \<and> MsgType (Request.CommonHead (snd (sample_Unmarshal body_subscribe zero_Request)))
        = MSG_TYPE_EVENT sample_env
   \<and> Request.Event (snd (sample_Unmarshal body_subscribe zero_Request))
        = EVENT_TYPE_SUBSCRIBE sample_env
   \<and> callbacks (events sample_env sample_handler
        (request ''POST'' sample_query (body_subscribe, None)) initial_state)
      = [SubscribeEventHandler
           \<lparr>SubscribeEvent.CommonHead =
              \<lparr>ToUserName = [], FromUserName = [], CreateTime = 0, MsgType = ''event''\<rparr>,
            SubscribeEvent.Event = ''subscribe''\<rparr>]
   \<and> post_decodes sample_env sample_handler
        (request ''POST'' sample_query (body_subscribe_scan, None))
        (snd (sample_Unmarshal body_subscribe_scan zero_Request))
   \<and> callbacks (events sample_env sample_handler
        (request ''POST'' sample_query (body_subscribe_scan, None)) initial_state)
      = [SubscribeByScanEventHandler
           \<lparr>SubscribeByScanEvent.CommonHead =
              \<lparr>ToUserName = [], FromUserName = [], CreateTime = 0, MsgType = ''event''\<rparr>,
            SubscribeByScanEvent.Event = ''subscribe'',
            SubscribeByScanEvent.EventKey = ''qrscene_1'',
            SubscribeByScanEvent.Ticket = ''abc''\<rparr>]"
proof -
  let ?m1 = "snd (sample_Unmarshal body_subscribe zero_Request)"
  let ?m2 = "snd (sample_Unmarshal body_subscribe_scan zero_Request)"
  have d1: "post_decodes sample_env sample_handler
      (request ''POST'' sample_query (body_subscribe, None)) ?m1"
    by (simp add: post_decodes_def sample_post_verified)
       (simp add: request_def sample_env_def sample_Unmarshal_def)
  have d2: "post_decodes sample_env sample_handler
      (request ''POST'' sample_query (body_subscribe_scan, None)) ?m2"
    by (simp add: post_decodes_def sample_post_verified)
       (simp add: request_def sample_env_def sample_Unmarshal_def body_subscribe_def
          body_subscribe_scan_def)
  have e1: "MsgType (Request.CommonHead ?m1) = MSG_TYPE_EVENT sample_env"
    "Request.Event ?m1 = EVENT_TYPE_SUBSCRIBE sample_env"
    by (simp_all add: sample_env_def sample_Unmarshal_def)
  have e2: "MsgType (Request.CommonHead ?m2) = MSG_TYPE_EVENT sample_env"
    "Request.Event ?m2 = EVENT_TYPE_SUBSCRIBE sample_env"
    by (simp_all add: sample_env_def sample_Unmarshal_def body_subscribe_def
        body_subscribe_scan_def)
  show ?thesis
    using subscribe_routing [OF wf_initial_state distinct_sample_env d1 e1]
      subscribe_routing [OF wf_initial_state distinct_sample_env d2 e2]
      d1 d2 e1 wf_initial_state distinct_sample_env
    by (simp add: sample_Unmarshal_def body_subscribe_def body_subscribe_scan_def zero_Request_def)
qed

theorem unknown_request_gets_copy_witness:
  "wf_state initial_state \<and> distinct_consts sample_env
   \<and> post_decodes sample_env sample_handler (request ''POST'' sample_query (body_foo, None))
        (snd (sample_Unmarshal body_foo zero_Request))
   \<and> MsgType (Request.CommonHead (snd (sample_Unmarshal body_foo zero_Request)))
        \<notin> set (msg_types sample_env)
   \<and> events sample_env sample_handler (request ''POST'' sample_query (body_foo, None))
        initial_state
      = [Acquire 0, CheckSignature True, Invoke (UnknownRequestHandler 1), Release 0]
   \<and> bufs (ServeHTTP sample_env sample_handler (request ''POST'' sample_query (body_foo, None))
        initial_state) 1 = body_foo
   \<and> bufs (ServeHTTP sample_env sample_handler (request ''POST'' sample_query (body_foo, None))
        initial_state) 0 = []"
proof -
  let ?m = "snd (sample_Unmarshal body_foo zero_Request)"
  have d: "post_decodes sample_env sample_handler
      (request ''POST'' sample_query (body_foo, None)) ?m"
    by (simp add: post_decodes_def sample_post_verified)
       (simp add: request_def sample_env_def sample_Unmarshal_def body_subscribe_def
          body_subscribe_scan_def body_foo_def)
  have n: "MsgType (Request.CommonHead ?m) \<notin> set (msg_types sample_env)"
    by (simp add: sample_env_def sample_Unmarshal_def body_subscribe_def
        body_subscribe_scan_def body_foo_def msg_types_def)
  have g: "getBufferUnitFromPool initial_state =
     (\<lparr>signatureBuf = [], msgBuf = 0, msgRequest = zero_Request\<rparr>,
      \<lparr>bufs = (\<lambda>a. []), next_addr = 1, bufferUnitPool = [], trace = [Acquire 0]\<rparr>)"
    by (simp add: getBufferUnitFromPool_def newBufferUnit_def initial_state_def emit_def
        fun_eq_iff)
  show ?thesis
    using unknown_request_gets_copy [OF wf_initial_state distinct_sample_env d disjI1 g, OF n]
      d n wf_initial_state distinct_sample_env
    by (simp add: request_def)
qed

lemma empty_nonce_words:
  "be_words (sha1_pad ''1414587457token'') =
     [825504052, 892876596, 892826735, 1801809536, 0, 0, 0, 0, 0, 0, 0, 0, 0, 0, 0, 120]"
  by (simp add: sha1_pad_def be_bytes8_def be_bytes4_def be32_def char_of_def
      replicate_numeral_Cons bit_Suc_0_iff)

lemma empty_nonce_rounds:
  "sha1_rounds sha1_stages
     [825504052, 892876596, 892826735, 1801809536, 0, 0, 0, 0, 0, 0, 0, 0, 0, 0, 0, 120]
     (0x67452301, 0xEFCDAB89, 0x98BADCFE, 0x10325476, 0xC3D2E1F0)
   = (3604056218, 1857921373, 2645558218, 3903754209, 2238089463)"
  by (simp add: sha1_stages_def rotl_def m32_def replicate_numeral_Cons)

lemma empty_nonce_sha1:
  "hex_EncodeToString (sha1_Sum ''1414587457token'') = empty_nonce_signature"
proof -
  have "length (sha1_pad ''1414587457token'') = 64"
    by (simp add: sha1_pad_def be_bytes8_def be_bytes4_def)
  then have "sha1_blocks sha1_init (sha1_pad ''1414587457token'')
             = sha1_block sha1_init (sha1_pad ''1414587457token'')"
    by (rule sha1_one_block)
  also have "\<dots> = (1041673115, 1586187494, 912974024, 4175488087, 1228499687)"
    unfolding sha1_block_def empty_nonce_words sha1_init_def
    by (simp add: empty_nonce_rounds m32_def)
  finally show ?thesis
    unfolding sha1_Sum_def
    by (simp add: hex_EncodeToString_def hextable_def be_bytes4_def char_of_def
        empty_nonce_signature_def bit_Suc_0_iff)
qed

lemma empty_nonce_checkSignature:
  "checkSignature empty_nonce_signature ''1414587457'' [] ''token'' buf"
  by (simp add: checkSignature_def empty_nonce_sha1)


lemma sample_get_parse:
  "sample_ParseQuery sample_get_query =
     Inr [''signature'' \<mapsto> [sample_signature], ''timestamp'' \<mapsto> [''1414587457''],
          ''nonce'' \<mapsto> [''nonce''], ''echostr'' \<mapsto> [''hello'']]"
  by (simp add: sample_ParseQuery_def add_value_def sample_get_query_def sample_query_def
      sample_signature_def)

lemma sample_get_params:
  "param sample_env (request method sample_get_query body) ''signature'' = sample_signature"
  "param sample_env (request method sample_get_query body) ''timestamp'' = ''1414587457''"
  "param sample_env (request method sample_get_query body) ''nonce'' = ''nonce''"
  "param sample_env (request method sample_get_query body) ''echostr'' = ''hello''"
  by (simp_all add: param_def request_def sample_env_def sample_get_parse Get_def)

lemma sample_get_verifies:
  "verifies sample_env sample_handler (request method sample_get_query body)"
  by (simp add: verifies_def sample_get_params sample_handler_def sample_checkSignature)

lemma sample_get_complete:
  "list_all (\<lambda>k. param sample_env (request method sample_get_query body) k \<noteq> [])
     (required ''GET'')"
  by (simp add: required_def sample_get_params sample_signature_def)

lemma sample_handshake_ok:
  "handshake_ok sample_env sample_handler (request ''GET'' sample_get_query body)"
  by (simp add: handshake_ok_def sample_get_verifies sample_get_complete)
     (simp add: request_def)

lemma sample_signature_nonempty: "sample_signature \<noteq> []"
  by (simp add: sample_signature_def)

lemma get_initial_state:
  "getBufferUnitFromPool initial_state =
     (\<lparr>signatureBuf = [], msgBuf = 0, msgRequest = zero_Request\<rparr>,
      \<lparr>bufs = (\<lambda>a. []), next_addr = 1, bufferUnitPool = [], trace = [Acquire 0]\<rparr>)"
  by (simp add: getBufferUnitFromPool_def newBufferUnit_def initial_state_def emit_def
      fun_eq_iff)

lemma sample_get_events:
  "events sample_env sample_handler (request ''GET'' sample_get_query body) initial_state
     = [Acquire 0, CheckSignature True, WriteString ''hello'', Release 0]"
proof -
  have m: "Method (request ''GET'' sample_get_query body) = ''GET''"
    by (simp add: request_def)
  show ?thesis
    by (simp add: serve_GET_complete [OF m sample_get_complete get_initial_state]
        sample_get_verifies sample_get_params)
qed

lemma bad_signature_parse:
  "sample_ParseQuery ''signature=bad&timestamp=1414587457&nonce=nonce&echostr=hello'' =
     Inr [''signature'' \<mapsto> [''bad''], ''timestamp'' \<mapsto> [''1414587457''],
          ''nonce'' \<mapsto> [''nonce''], ''echostr'' \<mapsto> [''hello'']]"
  by (simp add: sample_ParseQuery_def add_value_def)

lemma bad_signature_params:
  "param sample_env (request method
      ''signature=bad&timestamp=1414587457&nonce=nonce&echostr=hello'' body) ''signature'' = ''bad''"
  "param sample_env (request method
      ''signature=bad&timestamp=1414587457&nonce=nonce&echostr=hello'' body) ''timestamp''
     = ''1414587457''"
  "param sample_env (request method
      ''signature=bad&timestamp=1414587457&nonce=nonce&echostr=hello'' body) ''nonce'' = ''nonce''"
  "param sample_env (request method
      ''signature=bad&timestamp=1414587457&nonce=nonce&echostr=hello'' body) ''echostr'' = ''hello''"
  by (simp_all add: param_def request_def sample_env_def bad_signature_parse Get_def)

lemma bad_signature_fails:
  "\<not> verifies sample_env sample_handler (request method
      ''signature=bad&timestamp=1414587457&nonce=nonce&echostr=hello'' body)"
proof
  assume "verifies sample_env sample_handler (request method
      ''signature=bad&timestamp=1414587457&nonce=nonce&echostr=hello'' body)"
  then have "length ''bad'' = 40"
    unfolding verifies_def bad_signature_params by (rule checkSignature_length)
  then show False by simp
qed

theorem handshake_echo_witness:
  "Method (request ''GET'' sample_get_query ([], None)) = ''GET''
   \<and> list_all (\<lambda>k. param sample_env (request ''GET'' sample_get_query ([], None)) k \<noteq> [])
        (required ''GET'')
   \<and> verifies sample_env sample_handler (request ''GET'' sample_get_query ([], None))
   \<and> written (events sample_env sample_handler (request ''GET'' sample_get_query ([], None))
        initial_state) = ''hello''
   \<and> callbacks (events sample_env sample_handler (request ''GET'' sample_get_query ([], None))
        initial_state) = []
   \<and> list_all (\<lambda>k. param sample_env (request ''GET''
          ''signature=bad&timestamp=1414587457&nonce=nonce&echostr=hello'' ([], None)) k \<noteq> [])
        (required ''GET'')
   \<and> \<not> verifies sample_env sample_handler (request ''GET''
          ''signature=bad&timestamp=1414587457&nonce=nonce&echostr=hello'' ([], None))
   \<and> written (events sample_env sample_handler (request ''GET''
          ''signature=bad&timestamp=1414587457&nonce=nonce&echostr=hello'' ([], None))
        initial_state) = []
   \<and> callbacks (events sample_env sample_handler (request ''GET''
          ''signature=bad&timestamp=1414587457&nonce=nonce&echostr=hello'' ([], None))
        initial_state) = [InvalidRequestHandler (errors_New ''check signature failed'')]"
proof -
  have m: "Method (request ''GET'' q ([], None)) = ''GET''" for q
    by (simp add: request_def)
  have c: "list_all (\<lambda>k. param sample_env (request ''GET''
          ''signature=bad&timestamp=1414587457&nonce=nonce&echostr=hello'' ([], None)) k \<noteq> [])
        (required ''GET'')"
    by (simp add: required_def bad_signature_params)
  show ?thesis
    using handshake_echo [OF m sample_get_complete, of sample_handler initial_state]
      handshake_echo [OF m c, of sample_handler initial_state]
      m sample_get_complete sample_get_verifies c bad_signature_fails
    by (simp add: sample_get_params)
qed

lemma empty_nonce_parse:
  "sample_ParseQuery empty_nonce_query =
     Inr [''signature'' \<mapsto> [empty_nonce_signature], ''timestamp'' \<mapsto> [''1414587457''],
          ''nonce'' \<mapsto> [[]], ''echostr'' \<mapsto> [''hello'']]"
  by (simp add: sample_ParseQuery_def add_value_def empty_nonce_query_def
      empty_nonce_signature_def)

text \<open>
  C7 as it is written fails on a handshake whose \<^verbatim>\<open>nonce\<close> is present with an empty
  value: all four parameters are present and the signature is the right one for the
  token, the timestamp and the empty nonce, yet the handler calls
  \<^verbatim>\<open>InvalidRequestHandler\<close> and does not write \<^verbatim>\<open>echostr\<close>.
\<close>

theorem handshake_empty_nonce_counterexample:
  "Method (request ''GET'' empty_nonce_query ([], None)) = ''GET''
   \<and> present sample_env (request ''GET'' empty_nonce_query ([], None)) ''signature''
   \<and> present sample_env (request ''GET'' empty_nonce_query ([], None)) ''timestamp''
   \<and> present sample_env (request ''GET'' empty_nonce_query ([], None)) ''nonce''
   \<and> present sample_env (request ''GET'' empty_nonce_query ([], None)) ''echostr''
   \<and> verifies sample_env sample_handler (request ''GET'' empty_nonce_query ([], None))
   \<and> param sample_env (request ''GET'' empty_nonce_query ([], None)) ''echostr'' = ''hello''
   \<and> written (events sample_env sample_handler (request ''GET'' empty_nonce_query ([], None))
        initial_state) = []
   \<and> callbacks (events sample_env sample_handler (request ''GET'' empty_nonce_query ([], None))
        initial_state) = [InvalidRequestHandler (errors_New ''nonce is empty'')]"
  by (simp add: present_def missing_def verifies_def param_def request_def sample_env_def
      empty_nonce_parse Get_def sample_handler_def empty_nonce_checkSignature
      events_def ServeHTTP_def serve_GET_def invoke_def emit_def initial_state_def)
     (simp add: empty_nonce_signature_def)

text \<open>
  C5 as it is written fails on a handshake that succeeds: the handler writes the answer
  itself and calls no callback. It fails as well on a request with another method.
\<close>

theorem handshake_no_callback_counterexample:
  "handshake_ok sample_env sample_handler (request ''GET'' sample_get_query ([], None))
   \<and> events sample_env sample_handler (request ''GET'' sample_get_query ([], None)) initial_state
        = [Acquire 0, CheckSignature True, WriteString ''hello'', Release 0]
   \<and> length (callbacks (events sample_env sample_handler
        (request ''GET'' sample_get_query ([], None)) initial_state)) = 0
   \<and> length (callbacks (events sample_env sample_handler
        (request ''PUT'' sample_get_query ([], None)) initial_state)) = 0"
  by (simp add: sample_handshake_ok sample_get_events)
     (simp add: events_def ServeHTTP_def request_def)

theorem callbacks_per_request_witness:
  "length (callbacks (events sample_env sample_handler
      (request ''GET'' sample_get_query ([], None)) initial_state)) = 0
   \<and> length (callbacks (events sample_env sample_handler
      (request ''POST'' sample_get_query ([], None)) initial_state)) = 1
   \<and> length (callbacks (events sample_env sample_handler (request ''GET''
          ''signature=bad&timestamp=1414587457&nonce=nonce&echostr=hello'' ([], None))
        initial_state)) = 1"
proof -
  have "\<not> handshake_ok sample_env sample_handler (request ''GET''
          ''signature=bad&timestamp=1414587457&nonce=nonce&echostr=hello'' ([], None))"
    by (simp add: handshake_ok_def bad_signature_fails)
  then show ?thesis
    using callbacks_per_request [of sample_env sample_handler
        "request ''GET'' sample_get_query ([], None)" initial_state]
      callbacks_per_request [of sample_env sample_handler
        "request ''POST'' sample_get_query ([], None)" initial_state]
      callbacks_per_request [of sample_env sample_handler "request ''GET''
          ''signature=bad&timestamp=1414587457&nonce=nonce&echostr=hello'' ([], None)"
        initial_state]
      sample_handshake_ok [of "([], None)"]
    by (simp add: request_def)
qed

theorem unit_always_released_witness:
  "Acquire 0 \<in> set (events sample_env sample_handler
      (request ''GET'' sample_get_query ([], None)) initial_state)
   \<and> last (events sample_env sample_handler
      (request ''GET'' sample_get_query ([], None)) initial_state) = Release 0
   \<and> map msgBuf (bufferUnitPool (ServeHTTP sample_env sample_handler
      (request ''GET'' sample_get_query ([], None)) initial_state)) = [0]"
proof -
  have a: "Acquire 0 \<in> set (events sample_env sample_handler
      (request ''GET'' sample_get_query ([], None)) initial_state)"
    by (simp add: sample_get_events)
  have p: "map msgBuf (bufferUnitPool (ServeHTTP sample_env sample_handler
      (request ''GET'' sample_get_query ([], None)) initial_state)) = [0]"
    by (simp add: ServeHTTP_def serve_GET_def serve_GET_with_def request_def sample_env_def
        sample_get_parse Get_def get_initial_state putBufferUnitToPool_def emit_def Let_def
        sample_handler_def sample_checkSignature sample_signature_nonempty)
  from unit_always_released [OF a] a p show ?thesis by simp
qed

lemma empty_signature_parse:
  "sample_ParseQuery ''signature=&timestamp=1414587457&nonce=nonce'' =
     Inr [''signature'' \<mapsto> [[]], ''timestamp'' \<mapsto> [''1414587457''],
          ''nonce'' \<mapsto> [''nonce'']]"
  by (simp add: sample_ParseQuery_def add_value_def)

theorem empty_parameter_as_missing_witness:
  "(Method (request ''POST'' ''signature=&timestamp=1414587457&nonce=nonce'' ([], None)) = ''POST''
    \<or> Method (request ''POST'' ''signature=&timestamp=1414587457&nonce=nonce'' ([], None)) = ''GET'')
   \<and> ''signature'' \<in> set (required
        (Method (request ''POST'' ''signature=&timestamp=1414587457&nonce=nonce'' ([], None))))
   \<and> present_empty sample_env
        (request ''POST'' ''signature=&timestamp=1414587457&nonce=nonce'' ([], None)) ''signature''
   \<and> missing sample_env
        (request ''POST'' ''timestamp=1414587457&nonce=nonce'' ([], None)) ''signature''
   \<and> ServeHTTP sample_env sample_handler
        (request ''POST'' ''signature=&timestamp=1414587457&nonce=nonce'' ([], None)) initial_state
      = ServeHTTP sample_env sample_handler
        (request ''POST'' ''timestamp=1414587457&nonce=nonce'' ([], None)) initial_state
   \<and> events sample_env sample_handler
        (request ''POST'' ''signature=&timestamp=1414587457&nonce=nonce'' ([], None)) initial_state
      = [Invoke (InvalidRequestHandler (errors_New ''signature is empty''))]"
proof -
  let ?r = "request ''POST'' ''signature=&timestamp=1414587457&nonce=nonce'' ([], None)"
  let ?r' = "request ''POST'' ''timestamp=1414587457&nonce=nonce'' ([], None)"
  let ?v = "[''signature'' \<mapsto> [[]], ''timestamp'' \<mapsto> [''1414587457''],
          ''nonce'' \<mapsto> [''nonce'']]"
  have h1: "Method ?r = ''POST'' \<or> Method ?r = ''GET''"
    and h2: "''signature'' \<in> set (required (Method ?r))"
    and h3: "http_Request.URL ?r = Some \<lparr>RawQuery = ''signature=&timestamp=1414587457&nonce=nonce''\<rparr>"
    and h6: "Method ?r' = Method ?r"
    and h7: "http_Request.URL ?r' = Some \<lparr>RawQuery = ''timestamp=1414587457&nonce=nonce''\<rparr>"
    by (simp_all add: request_def required_def)
  have h4: "url_ParseQuery sample_env
      (RawQuery \<lparr>RawQuery = ''signature=&timestamp=1414587457&nonce=nonce''\<rparr>) = Inr ?v"
    by (simp add: sample_env_def empty_signature_parse)
  have h5: "?v ''signature'' = Some ([] # [])"
    by simp
  have h8: "url_ParseQuery sample_env (RawQuery \<lparr>RawQuery = ''timestamp=1414587457&nonce=nonce''\<rparr>)
      = Inr (?v(''signature'' := None))"
    by (simp add: sample_env_def sample_parse_1 fun_eq_iff)
  from empty_parameter_as_missing [OF h1 h2 h3 h4 h5 h6 h7 h8, of sample_handler initial_state]
  show ?thesis
    using h1 h2
    by (auto simp: present_empty_def missing_def request_def sample_env_def
        empty_signature_parse sample_parse_1 events_def invoke_def emit_def
        ServeHTTP_def serve_POST_def Get_def)
qed

end
